theory Spec2Isabelle
  imports Complex_Main
begin

section \<open>Values exchanged with the backend\<close>

text \<open>
  The application (\<^verbatim>\<open>src/app.py\<close>) is a Streamlit front end: every value it
  inspects comes out of \<^verbatim>\<open>response.json()\<close>, so the data model is the one of
  Python's \<^verbatim>\<open>json\<close> module. A float is either finite (kept as the rational it
  denotes; no float arithmetic is performed anywhere in the model) or one of the
  three non-finite values the module accepts. A dict is an association list, read with
  \<^const>\<open>map_of\<close>. Strings are UTF-8 byte lists: the code only compares them with
  ASCII keys and copies them into labels, and both are preserved by the encoding.
\<close>

datatype pyfloat = Finite rat | PosInf | NegInf | NaN

datatype json =
    JNull
  | JBool bool
  | JInt int
  | JFloat pyfloat
  | JStr string
  | JArr "json list"
  | JObj "(string \<times> json) list"

text \<open>The exceptions the modelled code can raise.\<close>

datatype py_error =
    KeyError string
  | TypeError
  | AttributeError
  | ValueError
  | OverflowError

text \<open>Sequencing of fallible steps: the first exception ends the computation.\<close>

definition bind_err :: "py_error + 'a \<Rightarrow> ('a \<Rightarrow> py_error + 'b) \<Rightarrow> py_error + 'b" where
  "bind_err m f = (case m of Inl e \<Rightarrow> Inl e | Inr v \<Rightarrow> f v)"

text \<open>Python truthiness (\<^verbatim>\<open>bool(v)\<close>); both float zeros are \<open>Finite 0\<close>.\<close>

fun truthy :: "json \<Rightarrow> bool" where
  "truthy JNull = False"
| "truthy (JBool b) = b"
| "truthy (JInt i) = (i \<noteq> 0)"
| "truthy (JFloat f) = (f \<noteq> Finite 0)"
| "truthy (JStr s) = (s \<noteq> [])"
| "truthy (JArr xs) = (xs \<noteq> [])"
| "truthy (JObj kvs) = (kvs \<noteq> [])"

text \<open>\<^verbatim>\<open>d[k]\<close> with a string key: only a dict accepts it.\<close>

definition subscript :: "json \<Rightarrow> string \<Rightarrow> py_error + json" where
  "subscript d k =
     (case d of
        JObj kvs \<Rightarrow> (case map_of kvs k of Some v \<Rightarrow> Inr v | None \<Rightarrow> Inl (KeyError k))
      | _ \<Rightarrow> Inl TypeError)"

text \<open>\<^verbatim>\<open>d.get(k, default)\<close>; \<^verbatim>\<open>d.get(k)\<close> is \<open>dict_get d k JNull\<close>.\<close>

definition dict_get :: "json \<Rightarrow> string \<Rightarrow> json \<Rightarrow> py_error + json" where
  "dict_get d k dflt =
     (case d of
        JObj kvs \<Rightarrow> Inr (case map_of kvs k of Some v \<Rightarrow> v | None \<Rightarrow> dflt)
      | _ \<Rightarrow> Inl AttributeError)"

fun starts_with :: "string \<Rightarrow> string \<Rightarrow> bool" where
  "starts_with s [] = True"
| "starts_with [] (p # ps) = False"
| "starts_with (c # cs) (p # ps) = (c = p \<and> starts_with cs ps)"

fun is_substring :: "string \<Rightarrow> string \<Rightarrow> bool" where
  "is_substring p [] = (p = [])"
| "is_substring p (c # cs) = (starts_with (c # cs) p \<or> is_substring p cs)"

text \<open>
  \<^verbatim>\<open>k in v\<close> for a string \<open>k\<close>: key membership in a dict, element membership in a
  list, substring test in a string, \<^verbatim>\<open>TypeError\<close> on everything else.
\<close>

definition py_in :: "string \<Rightarrow> json \<Rightarrow> py_error + bool" where
  "py_in k v =
     (case v of
        JObj kvs \<Rightarrow> Inr (map_of kvs k \<noteq> None)
      | JArr xs \<Rightarrow> Inr (JStr k \<in> set xs)
      | JStr s \<Rightarrow> Inr (is_substring k s)
      | _ \<Rightarrow> Inl TypeError)"

section \<open>Formatted text\<close>

text \<open>
  An f-string is kept as the list of its parts, so that no digit of a float has to be
  printed: \<open>Lit s\<close> is literal text, \<open>Str v\<close> stands for \<^verbatim>\<open>str(v)\<close>, \<open>Num i\<close> for
  the decimal digits of an integer, \<open>Fixed n v\<close> for \<^verbatim>\<open>format(v, '.nf')\<close> and
  \<open>FixedMul100 n v\<close> for \<^verbatim>\<open>format(v * 100, '.nf')\<close>. Whether the formatting raises is
  decided by the model (\<open>fmt_fixed\<close> and \<open>fmt_fixed_mul100\<close> below), only the digits are
  left symbolic. \<open>ReliabilityColor v\<close> is the colour word chosen from \<^verbatim>\<open>v * 100\<close> and
  \<open>ExcText\<close> the message of a caught exception.
\<close>

datatype frag =
    Lit string
  | Str json
  | Num int
  | Fixed nat json
  | FixedMul100 nat json
  | ReliabilityColor json
  | ExcText

type_synonym fstring = "frag list"

section \<open>The application object\<close>

text \<open>
  \<^verbatim>\<open>TransportApp.__init__\<close>: the base URL is read from the deployment's secrets, the
  default location is the dict \<^verbatim>\<open>{"latitude": -8.114722, "longitude": -79.038611}\<close>.
\<close>

record TransportApp =
  api_url :: string
  default_location :: json

definition trujillo_centro :: json where
  "trujillo_centro =
     JObj [(''latitude'', JFloat (Finite (-8.114722))),
           (''longitude'', JFloat (Finite (-79.038611)))]"

definition new_TransportApp :: "string \<Rightarrow> TransportApp" where
  "new_TransportApp url = \<lparr>api_url = url, default_location = trujillo_centro\<rparr>"

section \<open>Map layers (\<^verbatim>\<open>display_route_map\<close>)\<close>

text \<open>
  The entries of \<^verbatim>\<open>points_data\<close>, of \<^verbatim>\<open>walking_data\<close>/\<^verbatim>\<open>bus_data\<close>, the two
  kinds of \<^verbatim>\<open>pdk.Layer\<close> the function builds, \<^verbatim>\<open>pdk.ViewState\<close> and \<^verbatim>\<open>pdk.Deck\<close>.
  The pydeck constructors store their arguments; they are taken to be total. The
  function never passes \<^verbatim>\<open>id=\<close> to \<^verbatim>\<open>pdk.Layer\<close>, so each layer stores a fresh
  \<^verbatim>\<open>str(uuid.uuid4())\<close> as its id: the first component of a layer. The identifiers
  drawn during a run are a parameter, \<open>uuid4 n\<close> being the one of the \<open>n\<close>-th layer
  constructed.
\<close>

record point =
  name :: fstring
  coordinates :: "json list"
  color :: "int list"

record path_datum =
  path :: json
  path_color :: "int list"
  path_name :: string

datatype layer =
    ScatterplotLayer string "point list" string string int bool
  | PathLayer string "path_datum list" string string int bool

record view_state =
  latitude :: json
  longitude :: json
  zoom :: int
  pitch :: int

record deck =
  layers :: "layer list"
  initial_view_state :: view_state
  tooltip :: json

fun is_path_layer :: "layer \<Rightarrow> bool" where
  "is_path_layer (PathLayer i ps gp gc w pk) = True"
| "is_path_layer (ScatterplotLayer i ps gp gc r pk) = False"

fun layer_id :: "layer \<Rightarrow> string" where
  "layer_id (PathLayer i ps gp gc w pk) = i"
| "layer_id (ScatterplotLayer i ps gp gc r pk) = i"

definition tu_ubicacion :: string where
  "tu_ubicacion = ''Tu ubicaci'' @ [CHR 0xC3, CHR 0xB3] @ ''n''"

definition origin_point :: "json \<Rightarrow> json \<Rightarrow> point" where
  "origin_point lng lat =
     \<lparr>name = [Lit tu_ubicacion], coordinates = [lng, lat], color = [255, 0, 0, 160]\<rparr>"

definition boarding_point :: "json \<Rightarrow> json \<Rightarrow> json \<Rightarrow> point" where
  "boarding_point stop_name lng lat =
     \<lparr>name = [Lit ''Parada: '', Str stop_name], coordinates = [lng, lat],
      color = [0, 0, 255, 160]\<rparr>"

definition destination_point :: "json \<Rightarrow> json \<Rightarrow> json \<Rightarrow> point" where
  "destination_point dest_name lng lat =
     \<lparr>name = [Lit ''Destino: '', Str dest_name], coordinates = [lng, lat],
      color = [0, 255, 0, 160]\<rparr>"

text \<open>Lines 133--155: \<^verbatim>\<open>points_data\<close>, in the order of the \<^verbatim>\<open>append\<close> calls.\<close>

definition route_points :: "json \<Rightarrow> py_error + point list" where
  "route_points route =
     bind_err (subscript route ''origin_lng'') (\<lambda>origin_lng.
     bind_err (subscript route ''origin_lat'') (\<lambda>origin_lat.
     bind_err (dict_get route ''boarding_stop_name'' (JStr ''Parada recomendada'')) (\<lambda>stop_name.
     bind_err (subscript route ''boarding_lng'') (\<lambda>boarding_lng.
     bind_err (subscript route ''boarding_lat'') (\<lambda>boarding_lat.
     bind_err (dict_get route ''destination_lat'' JNull) (\<lambda>dlat.
     bind_err (if truthy dlat then dict_get route ''destination_lng'' JNull else Inr dlat) (\<lambda>guard.
       if truthy guard then
         bind_err (subscript route ''destination_name'') (\<lambda>dest_name.
         bind_err (subscript route ''destination_lng'') (\<lambda>destination_lng.
         bind_err (subscript route ''destination_lat'') (\<lambda>destination_lat.
           Inr [origin_point origin_lng origin_lat,
                boarding_point stop_name boarding_lng boarding_lat,
                destination_point dest_name destination_lng destination_lat])))
       else
         Inr [origin_point origin_lng origin_lat,
              boarding_point stop_name boarding_lng boarding_lat])))))))"

definition points_layer :: "string \<Rightarrow> point list \<Rightarrow> layer" where
  "points_layer fresh_id points_data =
     ScatterplotLayer fresh_id points_data ''coordinates'' ''color'' 200 True"

definition walking_layer :: "string \<Rightarrow> json \<Rightarrow> layer" where
  "walking_layer fresh_id coords =
     PathLayer fresh_id
       [\<lparr>path = coords, path_color = [255, 165, 0, 160],
                 path_name = ''Ruta a pie hacia la parada''\<rparr>]
       ''path'' ''color'' 8 True"

definition bus_layer :: "string \<Rightarrow> json \<Rightarrow> layer" where
  "bus_layer fresh_id coords =
     PathLayer fresh_id
       [\<lparr>path = coords, path_color = [75, 0, 130, 160],
                 path_name = ''Ruta del transporte''\<rparr>]
       ''path'' ''color'' 6 True"

text \<open>
  Lines 167--202: \<^verbatim>\<open>line_layers\<close>. The point layer has been constructed before
  (line 158) and holds the identifier number 0; a path layer takes the next one.
\<close>

definition route_line_layers :: "(nat \<Rightarrow> string) \<Rightarrow> json \<Rightarrow> py_error + layer list" where
  "route_line_layers uuid4 route =
     bind_err (dict_get route ''walking_route_coordinates'' JNull) (\<lambda>w.
     bind_err (if truthy w
               then bind_err (subscript route ''walking_route_coordinates'')
                      (\<lambda>coords. Inr [walking_layer (uuid4 1) coords])
               else Inr []) (\<lambda>line_layers.
     bind_err (dict_get route ''bus_route_coordinates'' JNull) (\<lambda>b.
       if truthy b
       then bind_err (subscript route ''bus_route_coordinates'')
              (\<lambda>coords. Inr (line_layers
                               @ [bus_layer (uuid4 (1 + length line_layers)) coords]))
       else Inr line_layers)))"

definition map_tooltip :: json where
  "map_tooltip =
     JObj [(''html'', JStr ''<b>{name}</b>''),
           (''style'', JObj [(''backgroundColor'', JStr ''steelblue''),
                             (''color'', JStr ''white'')])]"

text \<open>
  \<^verbatim>\<open>display_route_map\<close> (lines 125--229). The result is the \<^verbatim>\<open>pdk.Deck\<close> handed to
  \<^verbatim>\<open>st.pydeck_chart\<close>, \<open>None\<close> when the function returns at its guard, or the
  exception it raises. \<open>self\<close> is an argument as in the source; \<open>uuid4\<close> gives the
  identifiers drawn by the \<^verbatim>\<open>pdk.Layer\<close> constructors.
\<close>

definition display_route_map ::
  "(nat \<Rightarrow> string) \<Rightarrow> TransportApp \<Rightarrow> json \<Rightarrow> py_error + deck option" where
  "display_route_map uuid4 self route_data =
     (if \<not> truthy route_data then Inr None
      else
        bind_err (py_in ''route'' route_data) (\<lambda>has_route.
          if \<not> has_route then Inr None
          else
            bind_err (subscript route_data ''route'') (\<lambda>route.
            bind_err (route_points route) (\<lambda>points_data.
            bind_err (route_line_layers uuid4 route) (\<lambda>line_layers.
            bind_err (subscript route ''origin_lat'') (\<lambda>lat.
            bind_err (subscript route ''origin_lng'') (\<lambda>lng.
              Inr (Some \<lparr>layers = line_layers @ [points_layer (uuid4 0) points_data],
                         initial_view_state =
                           \<lparr>latitude = lat, longitude = lng, zoom = 14, pitch = 0\<rparr>,
                         tooltip = map_tooltip\<rparr>))))))))"

section \<open>Effects: what a run shows and requests\<close>

text \<open>
  Streamlit calls and HTTP requests are recorded as events, in the order in which the
  code performs them. Layout calls (\<^verbatim>\<open>st.columns\<close>, \<^verbatim>\<open>st.container\<close>,
  \<^verbatim>\<open>st.expander\<close>, \<^verbatim>\<open>st.spinner\<close>) show nothing of their own and have no event.
  The text typed by the user is a Python \<^verbatim>\<open>str\<close> whose length the code measures, so
  it is a list of code points.
\<close>

type_synonym ustr = "nat list"

datatype button =
    BtnUsarUbicacion
  | BtnSeleccionar json
  | BtnCalcularRuta
  | BtnDescargarReporte
  | BtnNuevaRuta
  | BtnFeedback

text \<open>
  The key of a "Seleccionar" button is \<^verbatim>\<open>f"dest_{dest['id']}"\<close>; the button is
  identified by the value of \<^verbatim>\<open>dest['id']\<close>.
\<close>

datatype event =
    HttpGet string "(string \<times> ustr) list"
  | HttpPost string json
  | StMarkdown fstring
  | StWrite fstring
  | StInfo fstring
  | StSuccess fstring
  | StError fstring
  | StMetric fstring fstring
  | StMap json json
  | StTextInput
  | StPydeckChart deck
  | StButton button
  | StDownloadButton string json

text \<open>
  A method of the application shows things and then returns or raises; the events
  emitted before an exception are kept.
\<close>

type_synonym 'a ui = "event list \<times> (py_error + 'a)"

definition return_ui :: "'a \<Rightarrow> 'a ui" where
  "return_ui v = ([], Inr v)"

definition emit :: "event \<Rightarrow> unit ui" where
  "emit e = ([e], Inr ())"

definition lift_err :: "py_error + 'a \<Rightarrow> 'a ui" where
  "lift_err m = ([], m)"

definition bind_ui :: "'a ui \<Rightarrow> ('a \<Rightarrow> 'b ui) \<Rightarrow> 'b ui" where
  "bind_ui m f =
     (case m of
        (es, Inl err) \<Rightarrow> (es, Inl err)
      | (es, Inr v) \<Rightarrow> (case f v of (es', r) \<Rightarrow> (es @ es', r)))"

text \<open>A \<^verbatim>\<open>for\<close> loop whose body only has effects.\<close>

fun for_each :: "('a \<Rightarrow> unit ui) \<Rightarrow> 'a list \<Rightarrow> unit ui" where
  "for_each body [] = return_ui ()"
| "for_each body (x # xs) = bind_ui (body x) (\<lambda>_. for_each body xs)"

text \<open>
  Iterating a value: the elements of a list, the keys of a dict (distinct, as
  \<^verbatim>\<open>json.loads\<close> builds it), the characters of a string; anything else is not
  iterable. A character is a lead byte with the continuation bytes that follow it.
\<close>

definition is_continuation :: "char \<Rightarrow> bool" where
  "is_continuation c = (128 \<le> (of_char c :: nat) \<and> (of_char c :: nat) < 192)"

fun utf8_chars :: "string \<Rightarrow> string list" where
  "utf8_chars [] = []"
| "utf8_chars (c # cs) =
     (case utf8_chars cs of
        [] \<Rightarrow> [[c]]
      | g # gs \<Rightarrow>
          (case g of
             [] \<Rightarrow> [c] # gs
           | b # bs \<Rightarrow> if is_continuation b then (c # g) # gs else [c] # g # gs))"

definition py_iter :: "json \<Rightarrow> py_error + json list" where
  "py_iter v =
     (case v of
        JArr xs \<Rightarrow> Inr xs
      | JObj kvs \<Rightarrow> Inr (map (\<lambda>kv. JStr (fst kv)) kvs)
      | JStr s \<Rightarrow> Inr (map JStr (utf8_chars s))
      | _ \<Rightarrow> Inl TypeError)"

text \<open>
  Formatting with a fixed number of decimals accepts numbers (a \<^verbatim>\<open>bool\<close> is an
  \<^verbatim>\<open>int\<close>); an \<^verbatim>\<open>int\<close> is converted to a float first, which overflows from
  \<open>2^1024 - 2^970\<close> on. A string has no format code \<^verbatim>\<open>f\<close> (\<^verbatim>\<open>ValueError\<close>); the
  other values reject every format specification (\<^verbatim>\<open>TypeError\<close>).
\<close>

definition float_range :: "int \<Rightarrow> bool" where
  "float_range i = (\<bar>i\<bar> < 2 ^ 1024 - 2 ^ 970)"

definition fmt_fixed :: "nat \<Rightarrow> json \<Rightarrow> py_error + frag" where
  "fmt_fixed n v =
     (case v of
        JBool b \<Rightarrow> Inr (Fixed n v)
      | JInt i \<Rightarrow> if float_range i then Inr (Fixed n v) else Inl OverflowError
      | JFloat f \<Rightarrow> Inr (Fixed n v)
      | JStr s \<Rightarrow> Inl ValueError
      | _ \<Rightarrow> Inl TypeError)"

text \<open>
  \<^verbatim>\<open>v * 100\<close> followed by a fixed format: \<^verbatim>\<open>None\<close> and a dict cannot be
  multiplied, a string or a list is repeated and then fails to format.
\<close>

definition fmt_fixed_mul100 :: "nat \<Rightarrow> json \<Rightarrow> py_error + frag" where
  "fmt_fixed_mul100 n v =
     (case v of
        JBool b \<Rightarrow> Inr (FixedMul100 n v)
      | JInt i \<Rightarrow> if float_range (i * 100) then Inr (FixedMul100 n v) else Inl OverflowError
      | JFloat f \<Rightarrow> Inr (FixedMul100 n v)
      | JStr s \<Rightarrow> Inl ValueError
      | _ \<Rightarrow> Inl TypeError)"

section \<open>Route instructions (\<^verbatim>\<open>display_route_instructions\<close>)\<close>

definition emoji_clipboard :: string where
  "emoji_clipboard = [CHR 0xF0, CHR 0x9F, CHR 0x93, CHR 0x8B]"

definition emoji_walking_man :: string where
  "emoji_walking_man =
     [CHR 0xF0, CHR 0x9F, CHR 0x9A, CHR 0xB6, CHR 0xE2, CHR 0x80, CHR 0x8D,
      CHR 0xE2, CHR 0x99, CHR 0x82, CHR 0xEF, CHR 0xB8, CHR 0x8F]"

definition emoji_bar_chart :: string where
  "emoji_bar_chart = [CHR 0xF0, CHR 0x9F, CHR 0x93, CHR 0x8A]"

definition o_acute :: string where
  "o_acute = [CHR 0xC3, CHR 0xB3]"

definition i_acute :: string where
  "i_acute = [CHR 0xC3, CHR 0xAD]"

definition e_acute :: string where
  "e_acute = [CHR 0xC3, CHR 0xA9]"

definition u_acute :: string where
  "u_acute = [CHR 0xC3, CHR 0xBA]"

text \<open>Lines 303--309: the numbered steps, or the three fallback lines.\<close>

fun write_instructions :: "int \<Rightarrow> json list \<Rightarrow> unit ui" where
  "write_instructions i [] = return_ui ()"
| "write_instructions i (instruction # rest) =
     bind_ui (emit (StWrite [Num i, Lit ''. '', Str instruction]))
       (\<lambda>_. write_instructions (i + 1) rest)"

definition fallback_instructions :: "json \<Rightarrow> unit ui" where
  "fallback_instructions route =
     bind_ui (lift_err (dict_get route ''boarding_stop_name'' (JStr ''Parada recomendada''))) (\<lambda>stop.
     bind_ui (emit (StWrite [Lit (''1. Dir'' @ i_acute @ ''gete hacia la parada: **''),
                             Str stop, Lit ''**''])) (\<lambda>_.
     bind_ui (lift_err (dict_get route ''walking_distance_km'' (JInt 0))) (\<lambda>dist.
     bind_ui (lift_err (fmt_fixed 2 dist)) (\<lambda>dist_txt.
     bind_ui (emit (StWrite [Lit ''2. Distancia a caminar: **'', dist_txt, Lit '' km**''])) (\<lambda>_.
     bind_ui (lift_err (dict_get route ''walking_time_min'' (JInt 0))) (\<lambda>mins.
       emit (StWrite [Lit ''3. Tiempo estimado caminando: **'', Str mins,
                      Lit '' minutos**''])))))))"

text \<open>\<^verbatim>\<open>display_route_instructions\<close> (lines 264--313).\<close>

definition display_route_instructions :: "TransportApp \<Rightarrow> json \<Rightarrow> unit ui" where
  "display_route_instructions self route_data =
     (if \<not> truthy route_data then return_ui ()
      else
        bind_ui (lift_err (py_in ''route'' route_data)) (\<lambda>has_route.
          if \<not> has_route then return_ui ()
          else
            bind_ui (lift_err (subscript route_data ''route'')) (\<lambda>route.
            bind_ui (emit (StMarkdown [Lit (''### '' @ emoji_clipboard @ '' Instrucciones de Ruta'')])) (\<lambda>_.
            bind_ui (lift_err (dict_get route ''walking_distance_km'' (JInt 0))) (\<lambda>dist.
            bind_ui (lift_err (fmt_fixed 2 dist)) (\<lambda>dist_txt.
            bind_ui (emit (StMetric [Lit ''Distancia a caminar''] [dist_txt, Lit '' km''])) (\<lambda>_.
            bind_ui (lift_err (dict_get route ''walking_time_min'' (JInt 0))) (\<lambda>walk_min.
            bind_ui (emit (StMetric [Lit ''Tiempo caminando''] [Str walk_min, Lit '' min''])) (\<lambda>_.
            bind_ui (lift_err (dict_get route ''estimated_time_min'' (JInt 0))) (\<lambda>est_min.
            bind_ui (emit (StMetric [Lit ''Tiempo total estimado''] [Str est_min, Lit '' min''])) (\<lambda>_.
            bind_ui (lift_err (dict_get route ''estimated_fare'' (JStr ''0.00''))) (\<lambda>fare.
            bind_ui (emit (StMetric [Lit ''Costo aproximado''] [Lit ''S/ '', Str fare])) (\<lambda>_.
            bind_ui (emit (StMarkdown [Lit (''#### '' @ emoji_walking_man @ '' C'' @ o_acute
                                             @ ''mo llegar a la parada:'')])) (\<lambda>_.
            bind_ui (lift_err (dict_get route ''walking_instructions'' JNull)) (\<lambda>instrs.
            bind_ui (if truthy instrs
                     then bind_ui (lift_err (subscript route ''walking_instructions'')) (\<lambda>seq.
                          bind_ui (lift_err (py_iter seq)) (\<lambda>items.
                            write_instructions 1 items))
                     else fallback_instructions route) (\<lambda>_.
            bind_ui (lift_err (dict_get route ''confidence_score'' (JInt 0))) (\<lambda>score.
            bind_ui (lift_err (fmt_fixed_mul100 1 score)) (\<lambda>conf_txt.
              emit (StMarkdown [Lit (''#### '' @ emoji_bar_chart @ '' Confianza de la recomendaci''
                                      @ o_acute @ ''n: **''), conf_txt, Lit ''%**''])
            ))))))))))))))))))"

section \<open>Transport companies (\<^verbatim>\<open>display_transport_companies\<close>)\<close>

definition emoji_bus :: string where
  "emoji_bus = [CHR 0xF0, CHR 0x9F, CHR 0x9A, CHR 0x8D]"

text \<open>
  Lines 256--260. \<^verbatim>\<open>reliability = score * 100\<close> is compared with 80 and 60 and then
  formatted: \<^verbatim>\<open>None\<close> and a dict fail at the product, a string and a list at the
  comparison, an oversized \<^verbatim>\<open>int\<close> at the format. The colour word depends on the
  rounding of the product and is kept as \<open>ReliabilityColor\<close>.
\<close>

definition reliability_text :: "json \<Rightarrow> py_error + fstring" where
  "reliability_text score =
     (let txt = [Lit ''<span style='color: '', ReliabilityColor score,
                 Lit ''; font-weight: bold;'>Confianza: '', FixedMul100 0 score,
                 Lit ''%</span>'']
      in case score of
           JBool b \<Rightarrow> Inr txt
         | JInt i \<Rightarrow> if float_range (i * 100) then Inr txt else Inl OverflowError
         | JFloat f \<Rightarrow> Inr txt
         | _ \<Rightarrow> Inl TypeError)"

text \<open>Lines 240--262: the body of the loop over the companies.\<close>

definition company_card :: "json \<Rightarrow> unit ui" where
  "company_card company =
     bind_ui (lift_err (dict_get company ''name'' (JStr ''Empresa''))) (\<lambda>cname.
     bind_ui (emit (StMarkdown [Lit ''**'', Str cname, Lit ''**''])) (\<lambda>_.
     bind_ui (lift_err (dict_get company ''route_name'' (JStr ''N/A''))) (\<lambda>rname.
     bind_ui (emit (StMarkdown [Lit ''**Ruta:** '', Str rname])) (\<lambda>_.
     bind_ui (lift_err (dict_get company ''phone'' JNull)) (\<lambda>phone.
     bind_ui (if truthy phone
              then emit (StMarkdown [Lit (''**Tel'' @ e_acute @ ''fono:** ''), Str phone])
              else return_ui ()) (\<lambda>_.
     bind_ui (lift_err (dict_get company ''email'' JNull)) (\<lambda>email.
     bind_ui (if truthy email
              then emit (StMarkdown [Lit ''**Email:** '', Str email])
              else return_ui ()) (\<lambda>_.
     bind_ui (lift_err (dict_get company ''fare'' (JStr ''0.00''))) (\<lambda>fare.
     bind_ui (emit (StMarkdown [Lit ''**Tarifa:** S/ '', Str fare])) (\<lambda>_.
     bind_ui (lift_err (dict_get company ''frequency_min'' (JStr ''?''))) (\<lambda>freq.
     bind_ui (emit (StMarkdown [Lit ''**Frecuencia:** '', Str freq, Lit '' min''])) (\<lambda>_.
     bind_ui (lift_err (dict_get company ''estimated_duration_min'' (JStr ''?''))) (\<lambda>dur.
     bind_ui (emit (StMarkdown [Lit ''**Tiempo estimado:** '', Str dur, Lit '' min''])) (\<lambda>_.
     bind_ui (lift_err (dict_get company ''reliability_score'' (JInt 0))) (\<lambda>score.
     bind_ui (lift_err (reliability_text score)) (\<lambda>txt.
     bind_ui (emit (StMarkdown txt)) (\<lambda>_.
       emit (StMarkdown [Lit ''---'']))))))))))))))))))"

text \<open>\<^verbatim>\<open>display_transport_companies\<close> (lines 231--262).\<close>

definition display_transport_companies :: "TransportApp \<Rightarrow> json \<Rightarrow> unit ui" where
  "display_transport_companies self companies =
     (if \<not> truthy companies
      then emit (StInfo [Lit ''No se encontraron empresas de transporte para esta ruta''])
      else
        bind_ui (emit (StMarkdown [Lit (''### '' @ emoji_bus
                                         @ '' Empresas de Transporte Recomendadas'')])) (\<lambda>_.
        bind_ui (lift_err (py_iter companies)) (\<lambda>items.
          for_each company_card items)))"

section \<open>The external services\<close>

text \<open>
  What lies outside the repository is a parameter of the model: the answer of the HTTP
  backend to a request (\<open>RequestException\<close> when \<^verbatim>\<open>requests\<close> raises, otherwise the
  status code and the body, \<open>None\<close> when \<^verbatim>\<open>response.json()\<close> raises), the clock
  read by \<^verbatim>\<open>datetime.now().isoformat()\<close>, the library function
  \<^verbatim>\<open>base64.b64decode\<close> (\<open>None\<close> when it raises), and the identifiers that
  \<^verbatim>\<open>uuid.uuid4()\<close> yields to the layers constructed in the run.
\<close>

datatype http_response = RequestException | Response int "json option"

record world =
  http_get :: "string \<Rightarrow> (string \<times> ustr) list \<Rightarrow> http_response"
  http_post :: "string \<Rightarrow> json \<Rightarrow> http_response"
  now_isoformat :: string
  b64decode :: "json \<Rightarrow> string option"
  uuid4 :: "nat \<Rightarrow> string"

text \<open>\<^verbatim>\<open>str.strip()\<close> removes the code points for which \<^verbatim>\<open>str.isspace\<close> holds.\<close>

definition is_space :: "nat \<Rightarrow> bool" where
  "is_space c =
     ((9 \<le> c \<and> c \<le> 13) \<or> (28 \<le> c \<and> c \<le> 32) \<or> c = 133 \<or> c = 160 \<or> c = 5760
      \<or> (8192 \<le> c \<and> c \<le> 8202) \<or> c = 8232 \<or> c = 8233 \<or> c = 8239 \<or> c = 8287
      \<or> c = 12288)"

definition py_strip :: "ustr \<Rightarrow> ustr" where
  "py_strip s = rev (dropWhile is_space (rev (dropWhile is_space s)))"

text \<open>
  \<^verbatim>\<open>search_destinations\<close> (lines 85--97). The query is a \<^verbatim>\<open>str\<close> or \<^verbatim>\<open>None\<close>.
  Every exception inside the \<^verbatim>\<open>try\<close> is reported and answered by the empty list.
\<close>

definition search_destinations :: "world \<Rightarrow> TransportApp \<Rightarrow> ustr option \<Rightarrow> json ui" where
  "search_destinations w self query =
     (case query of
        None \<Rightarrow> return_ui (JArr [])
      | Some q \<Rightarrow>
          if q = [] \<or> length (py_strip q) < 3 then return_ui (JArr [])
          else
            bind_ui (emit (HttpGet (api_url self @ ''/search'') [(''q'', q)])) (\<lambda>_.
              case http_get w (api_url self @ ''/search'') [(''q'', q)] of
                RequestException \<Rightarrow>
                  bind_ui (emit (StError [Lit (''Error en b'' @ u_acute @ ''squeda: ''), ExcText]))
                    (\<lambda>_. return_ui (JArr []))
              | Response status body \<Rightarrow>
                  if status = 200 then
                    (case body of
                       Some j \<Rightarrow> return_ui j
                     | None \<Rightarrow>
                         bind_ui (emit (StError [Lit (''Error en b'' @ u_acute @ ''squeda: ''), ExcText]))
                           (\<lambda>_. return_ui (JArr [])))
                  else return_ui (JArr [])))"

text \<open>\<^verbatim>\<open>calculate_route\<close> (lines 99--123); \<open>JNull\<close> is \<^verbatim>\<open>None\<close>.\<close>

definition calculate_route ::
  "world \<Rightarrow> TransportApp \<Rightarrow> json \<Rightarrow> json \<Rightarrow> json \<Rightarrow> json \<Rightarrow> json \<Rightarrow> json ui" where
  "calculate_route w self origin_lat origin_lng destination_name destination_lat destination_lng =
     (let payload =
            JObj [(''origin_lat'', origin_lat),
                  (''origin_lng'', origin_lng),
                  (''destination_name'', destination_name),
                  (''destination_lat'', destination_lat),
                  (''destination_lng'', destination_lng),
                  (''timestamp'', JStr (now_isoformat w)),
                  (''user_agent'', JStr ''streamlit-app'')];
          url = api_url self @ ''/calculate-route''
      in bind_ui (emit (HttpPost url payload)) (\<lambda>_.
           case http_post w url payload of
             RequestException \<Rightarrow>
               bind_ui (emit (StError [Lit ''Error al calcular ruta: '', ExcText]))
                 (\<lambda>_. return_ui JNull)
           | Response status body \<Rightarrow>
               if status = 200 then
                 (case body of
                    Some j \<Rightarrow> return_ui j
                  | None \<Rightarrow>
                      bind_ui (emit (StError [Lit ''Error al calcular ruta: '', ExcText]))
                        (\<lambda>_. return_ui JNull))
               else
                 bind_ui (emit (StError [Lit ''Error del servidor: '', Num status]))
                   (\<lambda>_. return_ui JNull)))"

text \<open>
  Lines 324--329 of \<^verbatim>\<open>download_report\<close>: what is done with a parsed body. The
  result \<open>None\<close> is the pair \<^verbatim>\<open>(None, None)\<close>.
\<close>

definition report_payload :: "world \<Rightarrow> json \<Rightarrow> py_error + (string \<times> json) option" where
  "report_payload w result =
     bind_err (dict_get result ''success'' JNull) (\<lambda>success.
       if truthy success then
         bind_err (subscript result ''pdf_base64'') (\<lambda>encoded.
         bind_err (case b64decode w encoded of
                     None \<Rightarrow> Inl ValueError
                   | Some bs \<Rightarrow> Inr bs) (\<lambda>pdf_bytes.
         bind_err (subscript result ''filename'') (\<lambda>filename.
           Inr (Some (pdf_bytes, filename)))))
       else Inr None)"

text \<open>\<^verbatim>\<open>download_report\<close> (lines 315--332).\<close>

definition download_report ::
  "world \<Rightarrow> TransportApp \<Rightarrow> json \<Rightarrow> (string \<times> json) option ui" where
  "download_report w self route_result_id =
     (let payload = JObj [(''route_result_id'', route_result_id)];
          url = api_url self @ ''/generate-report'';
          handler = bind_ui (emit (StError [Lit ''Error descargando reporte: '', ExcText]))
                      (\<lambda>_. return_ui None)
      in bind_ui (emit (HttpPost url payload)) (\<lambda>_.
           case http_post w url payload of
             RequestException \<Rightarrow> handler
           | Response status body \<Rightarrow>
               if status = 200 then
                 (case body of
                    None \<Rightarrow> handler
                  | Some result \<Rightarrow>
                      (case report_payload w result of
                         Inl e \<Rightarrow> handler
                       | Inr r \<Rightarrow> return_ui r))
               else return_ui None))"

section \<open>The script run (\<^verbatim>\<open>main\<close>, first tab)\<close>

text \<open>
  The three session keys are initialised at module level (lines 639--644) before
  \<^verbatim>\<open>main\<close> runs, so they always exist; \<^verbatim>\<open>None\<close> is \<open>JNull\<close>. One run of the
  script sees the text of the input box and the button whose click caused the run, if
  any. \<^verbatim>\<open>st.button\<close> shows the button and tells whether it is that one.
\<close>

record session =
  selected_destination :: json
  route_data :: json
  show_results :: bool

definition initial_session :: session where
  "initial_session = \<lparr>selected_destination = JNull, route_data = JNull, show_results = False\<rparr>"

record inputs =
  destination_input :: ustr
  clicked :: "button option"

text \<open>
  The script of a run reads and writes the session. It ends normally, by an uncaught
  exception, or by \<^verbatim>\<open>st.rerun()\<close>, which only \<^verbatim>\<open>main\<close> calls: it raises
  Streamlit's rerun exception, which no handler of the application catches. The session
  and the events at the moment of the stop are kept.
\<close>

datatype stop = Raised py_error | Rerun

type_synonym 'a prog = "session \<Rightarrow> event list \<times> session \<times> (stop + 'a)"

definition return_prog :: "'a \<Rightarrow> 'a prog" where
  "return_prog v = (\<lambda>s. ([], s, Inr v))"

definition lift_ui :: "'a ui \<Rightarrow> 'a prog" where
  "lift_ui m =
     (\<lambda>s. case m of
             (es, Inl err) \<Rightarrow> (es, s, Inl (Raised err))
           | (es, Inr v) \<Rightarrow> (es, s, Inr v))"

definition bind_prog :: "'a prog \<Rightarrow> ('a \<Rightarrow> 'b prog) \<Rightarrow> 'b prog" where
  "bind_prog m f =
     (\<lambda>s. case m s of
             (es, s1, Inl st) \<Rightarrow> (es, s1, Inl st)
           | (es, s1, Inr v) \<Rightarrow> (case f v s1 of (es', s2, r) \<Rightarrow> (es @ es', s2, r)))"

definition get_session :: "session prog" where
  "get_session = (\<lambda>s. ([], s, Inr s))"

definition modify_session :: "(session \<Rightarrow> session) \<Rightarrow> unit prog" where
  "modify_session f = (\<lambda>s. ([], f s, Inr ()))"

definition st_rerun :: "unit prog" where
  "st_rerun = (\<lambda>s. ([], s, Inl Rerun))"

definition st_button :: "inputs \<Rightarrow> button \<Rightarrow> bool ui" where
  "st_button inp b = bind_ui (emit (StButton b)) (\<lambda>_. return_ui (clicked inp = Some b))"

definition degree_sign :: string where
  "degree_sign = [CHR 0xC2, CHR 0xB0]"

definition prime_sign :: string where
  "prime_sign = [CHR 0xE2, CHR 0x80, CHR 0xB2]"

definition double_prime_sign :: string where
  "double_prime_sign = [CHR 0xE2, CHR 0x80, CHR 0xB3]"

definition emoji_pin :: string where
  "emoji_pin = [CHR 0xF0, CHR 0x9F, CHR 0x93, CHR 0x8D]"

definition emoji_check :: string where
  "emoji_check = [CHR 0xE2, CHR 0x9C, CHR 0x85]"

definition emoji_target :: string where
  "emoji_target = [CHR 0xF0, CHR 0x9F, CHR 0x8E, CHR 0xAF]"

definition emoji_map :: string where
  "emoji_map = [CHR 0xF0, CHR 0x9F, CHR 0x97, CHR 0xBA, CHR 0xEF, CHR 0xB8, CHR 0x8F]"

text \<open>
  \<^verbatim>\<open>get_current_location\<close> (lines 65--83): every path returns the default location.
\<close>

definition get_current_location :: "TransportApp \<Rightarrow> inputs \<Rightarrow> json ui" where
  "get_current_location self inp =
     bind_ui (emit (StInfo [Lit (emoji_pin @ '' Ubicaci'' @ o_acute
                                  @ ''n actual: Centro de Trujillo (8'' @ degree_sign @ ''06''
                                  @ prime_sign @ ''53'' @ double_prime_sign @ ''S 79''
                                  @ degree_sign @ ''02'' @ prime_sign @ ''19''
                                  @ double_prime_sign @ ''O)'')])) (\<lambda>_.
     bind_ui (st_button inp BtnUsarUbicacion) (\<lambda>pressed.
     bind_ui (if pressed
              then emit (StSuccess [Lit (''Funcionalidad disponible en producci'' @ o_acute
                                          @ ''n con HTTPS'')])
              else return_ui ()) (\<lambda>_.
       return_ui (default_location self))))"

text \<open>Lines 376--388: the location panel.\<close>

definition location_panel :: "json \<Rightarrow> unit ui" where
  "location_panel location =
     bind_ui (lift_err (subscript location ''latitude'')) (\<lambda>lat.
     bind_ui (lift_err (fmt_fixed 6 lat)) (\<lambda>lat_txt.
     bind_ui (emit (StMetric [Lit ''Latitud''] [lat_txt])) (\<lambda>_.
     bind_ui (lift_err (subscript location ''longitude'')) (\<lambda>lon.
     bind_ui (lift_err (fmt_fixed 6 lon)) (\<lambda>lon_txt.
     bind_ui (emit (StMetric [Lit ''Longitud''] [lon_txt])) (\<lambda>_.
       emit (StMap lat lon)))))))"

text \<open>Lines 406--415: one search result per iteration, with its "Seleccionar" button.\<close>

definition result_row :: "inputs \<Rightarrow> json \<Rightarrow> bool ui" where
  "result_row inp dest =
     bind_ui (lift_err (subscript dest ''name'')) (\<lambda>dname.
     bind_ui (emit (StWrite [Lit ''**'', Str dname, Lit ''**''])) (\<lambda>_.
     bind_ui (lift_err (dict_get dest ''address'' JNull)) (\<lambda>address.
     bind_ui (if truthy address
              then bind_ui (lift_err (subscript dest ''address''))
                     (\<lambda>a. emit (StWrite [Lit (emoji_pin @ '' ''), Str a]))
              else return_ui ()) (\<lambda>_.
     bind_ui (lift_err (subscript dest ''id'')) (\<lambda>dest_id.
       st_button inp (BtnSeleccionar dest_id))))))"

fun select_buttons :: "inputs \<Rightarrow> json list \<Rightarrow> unit prog" where
  "select_buttons inp [] = return_prog ()"
| "select_buttons inp (dest # rest) =
     bind_prog (lift_ui (result_row inp dest)) (\<lambda>pressed.
       if pressed
       then bind_prog (modify_session (\<lambda>s. s\<lparr>selected_destination := dest\<rparr>)) (\<lambda>_. st_rerun)
       else select_buttons inp rest)"

text \<open>Lines 398--415: the search, issued from three typed characters on.\<close>

definition search_section :: "world \<Rightarrow> TransportApp \<Rightarrow> inputs \<Rightarrow> unit prog" where
  "search_section w app inp =
     (if destination_input inp \<noteq> [] \<and> 3 \<le> length (destination_input inp) then
        bind_prog (lift_ui (search_destinations w app (Some (destination_input inp)))) (\<lambda>destinations.
          if truthy destinations then
            bind_prog (lift_ui (emit (StMarkdown [Lit (''**Resultados de b'' @ u_acute
                                                        @ ''squeda:**'')]))) (\<lambda>_.
            bind_prog (lift_ui (lift_err (py_iter destinations))) (\<lambda>items.
              select_buttons inp items))
          else return_prog ())
      else return_prog ())"

definition calc_failed_message :: event where
  "calc_failed_message = StError [Lit ''No se pudo calcular la ruta. Intenta nuevamente.'']"

text \<open>Lines 421--439: the selected destination and the "Calcular Ruta" button.\<close>

definition selected_section :: "world \<Rightarrow> TransportApp \<Rightarrow> inputs \<Rightarrow> json \<Rightarrow> unit prog" where
  "selected_section w app inp location =
     bind_prog get_session (\<lambda>s0.
       if truthy (selected_destination s0) then
         (let dest = selected_destination s0 in
          bind_prog (lift_ui (lift_err (subscript dest ''name''))) (\<lambda>shown_name.
          bind_prog (lift_ui (emit (StSuccess [Lit (emoji_check @ '' Destino seleccionado: **''),
                                               Str shown_name, Lit ''**'']))) (\<lambda>_.
          bind_prog (lift_ui (st_button inp BtnCalcularRuta)) (\<lambda>pressed.
            if pressed then
              bind_prog (lift_ui (lift_err (subscript location ''latitude''))) (\<lambda>lat.
              bind_prog (lift_ui (lift_err (subscript location ''longitude''))) (\<lambda>lng.
              bind_prog (lift_ui (lift_err (subscript dest ''name''))) (\<lambda>dname.
              bind_prog (lift_ui (lift_err (dict_get dest ''latitude'' JNull))) (\<lambda>dlat.
              bind_prog (lift_ui (lift_err (dict_get dest ''longitude'' JNull))) (\<lambda>dlng.
              bind_prog (lift_ui (calculate_route w app lat lng dname dlat dlng)) (\<lambda>result.
                if truthy result
                then modify_session (\<lambda>s. s\<lparr>route_data := result, show_results := True\<rparr>)
                else lift_ui (emit calc_failed_message)))))))
            else return_prog ()))))
       else return_prog ())"

text \<open>Lines 457--486: the three action buttons under the results.\<close>

definition download_column :: "world \<Rightarrow> TransportApp \<Rightarrow> inputs \<Rightarrow> json \<Rightarrow> unit ui" where
  "download_column w app inp rd =
     bind_ui (if truthy rd then lift_err (py_in ''route'' rd) else return_ui False) (\<lambda>offered.
       if offered then
         bind_ui (st_button inp BtnDescargarReporte) (\<lambda>pressed.
           if pressed then
             bind_ui (lift_err (dict_get rd ''request_id'' JNull)) (\<lambda>request_id.
             bind_ui (download_report w app request_id) (\<lambda>report.
               case report of
                 None \<Rightarrow> return_ui ()
               | Some (pdf_bytes, filename) \<Rightarrow>
                   if pdf_bytes \<noteq> [] then
                     bind_ui (emit (StDownloadButton pdf_bytes filename)) (\<lambda>_.
                       emit (StSuccess [Lit (emoji_check @ '' Reporte generado exitosamente'')]))
                   else return_ui ()))
           else return_ui ())
       else return_ui ())"

definition reset_column :: "inputs \<Rightarrow> unit prog" where
  "reset_column inp =
     bind_prog (lift_ui (st_button inp BtnNuevaRuta)) (\<lambda>pressed.
       if pressed then
         bind_prog (modify_session (\<lambda>s. s\<lparr>show_results := False\<rparr>)) (\<lambda>_.
         bind_prog (modify_session (\<lambda>s. s\<lparr>route_data := JNull\<rparr>)) (\<lambda>_.
         bind_prog (modify_session (\<lambda>s. s\<lparr>selected_destination := JNull\<rparr>)) (\<lambda>_.
           st_rerun)))
       else return_prog ())"

definition feedback_column :: "inputs \<Rightarrow> unit ui" where
  "feedback_column inp =
     bind_ui (st_button inp BtnFeedback) (\<lambda>pressed.
       if pressed then emit (StInfo [Lit ''Funcionalidad de feedback en desarrollo''])
       else return_ui ())"

text \<open>Lines 441--486: the results, shown while the flag is set and a route is stored.\<close>

definition results_section :: "world \<Rightarrow> TransportApp \<Rightarrow> inputs \<Rightarrow> unit prog" where
  "results_section w app inp =
     bind_prog get_session (\<lambda>s0.
       if show_results s0 \<and> truthy (route_data s0) then
         (let rd = route_data s0 in
          bind_prog (lift_ui (emit (StMarkdown [Lit ''---'']))) (\<lambda>_.
          bind_prog (lift_ui (emit (StMarkdown [Lit (''### '' @ emoji_map @ '' Ruta Calculada'')]))) (\<lambda>_.
          bind_prog (lift_ui (lift_err (display_route_map (uuid4 w) app rd))) (\<lambda>chart.
          bind_prog (lift_ui (case chart of
                                None \<Rightarrow> return_ui ()
                              | Some d \<Rightarrow> emit (StPydeckChart d))) (\<lambda>_.
          bind_prog (lift_ui (lift_err (dict_get rd ''transport_companies'' (JArr [])))) (\<lambda>companies.
          bind_prog (lift_ui (display_transport_companies app companies)) (\<lambda>_.
          bind_prog (lift_ui (display_route_instructions app rd)) (\<lambda>_.
          bind_prog (lift_ui (download_column w app inp rd)) (\<lambda>_.
          bind_prog (reset_column inp) (\<lambda>_.
            lift_ui (feedback_column inp)))))))))))
       else return_prog ())"

text \<open>
  The body of the first tab (lines 370--486). The sidebar before it and the three tabs
  after it never write one of the three session keys.
\<close>

definition main_tab1 :: "world \<Rightarrow> TransportApp \<Rightarrow> inputs \<Rightarrow> unit prog" where
  "main_tab1 w app inp =
     bind_prog (lift_ui (get_current_location app inp)) (\<lambda>location.
       if truthy location then
         bind_prog (lift_ui (location_panel location)) (\<lambda>_.
         bind_prog (lift_ui (emit (StMarkdown [Lit (''### '' @ emoji_target
                                                     @ '' Ingresa tu Destino'')]))) (\<lambda>_.
         bind_prog (lift_ui (emit StTextInput)) (\<lambda>_.
         bind_prog (search_section w app inp) (\<lambda>_.
         bind_prog (selected_section w app inp location) (\<lambda>_.
           results_section w app inp)))))
       else return_prog ())"

section \<open>Notions used in the statements\<close>

text \<open>
  The value a dict yields under \<^verbatim>\<open>d.get(k, default)\<close>, a deck with the identifiers
  of its layers blanked, and the shapes of the fields
  of a route: a coordinate list that is absent, null or a list; one that is a non-empty
  list; a value that a fixed format accepts, directly or after the product with 100; a
  value a \<^verbatim>\<open>for\<close> loop accepts; the fields \<^verbatim>\<open>display_route_map\<close> reads by
  subscript; and what \<^verbatim>\<open>display_route_instructions\<close> shows for a route without any
  optional field.
\<close>

definition field_or :: "(string \<times> json) list \<Rightarrow> string \<Rightarrow> json \<Rightarrow> json" where
  "field_or r k dflt = (case map_of r k of Some v \<Rightarrow> v | None \<Rightarrow> dflt)"

fun erase_id :: "layer \<Rightarrow> layer" where
  "erase_id (PathLayer i ps gp gc w pk) = PathLayer [] ps gp gc w pk"
| "erase_id (ScatterplotLayer i ps gp gc r pk) = ScatterplotLayer [] ps gp gc r pk"

definition erase_ids :: "deck \<Rightarrow> deck" where
  "erase_ids d = d\<lparr>layers := map erase_id (layers d)\<rparr>"

definition coords_field :: "json option \<Rightarrow> bool" where
  "coords_field v =
     (case v of None \<Rightarrow> True | Some JNull \<Rightarrow> True | Some (JArr xs) \<Rightarrow> True | Some _ \<Rightarrow> False)"

definition nonempty_field :: "json option \<Rightarrow> bool" where
  "nonempty_field v = (case v of Some (JArr xs) \<Rightarrow> xs \<noteq> [] | _ \<Rightarrow> False)"

definition numeric :: "json \<Rightarrow> bool" where
  "numeric v =
     (case v of JBool b \<Rightarrow> True | JInt i \<Rightarrow> float_range i | JFloat f \<Rightarrow> True | _ \<Rightarrow> False)"

definition numeric_percent :: "json \<Rightarrow> bool" where
  "numeric_percent v =
     (case v of JBool b \<Rightarrow> True | JInt i \<Rightarrow> float_range (i * 100) | JFloat f \<Rightarrow> True
      | _ \<Rightarrow> False)"

definition iterable :: "json \<Rightarrow> bool" where
  "iterable v = (case v of JArr xs \<Rightarrow> True | JObj kvs \<Rightarrow> True | JStr s \<Rightarrow> True | _ \<Rightarrow> False)"

definition map_fields_present :: "(string \<times> json) list \<Rightarrow> bool" where
  "map_fields_present r =
     (map_of r ''origin_lng'' \<noteq> None \<and> map_of r ''origin_lat'' \<noteq> None
      \<and> map_of r ''boarding_lng'' \<noteq> None \<and> map_of r ''boarding_lat'' \<noteq> None
      \<and> (truthy (field_or r ''destination_lat'' JNull)
           \<and> truthy (field_or r ''destination_lng'' JNull)
           \<longrightarrow> map_of r ''destination_name'' \<noteq> None))"

definition default_instruction_events :: "event list" where
  "default_instruction_events =
     [StMarkdown [Lit (''### '' @ emoji_clipboard @ '' Instrucciones de Ruta'')],
      StMetric [Lit ''Distancia a caminar''] [Fixed 2 (JInt 0), Lit '' km''],
      StMetric [Lit ''Tiempo caminando''] [Str (JInt 0), Lit '' min''],
      StMetric [Lit ''Tiempo total estimado''] [Str (JInt 0), Lit '' min''],
      StMetric [Lit ''Costo aproximado''] [Lit ''S/ '', Str (JStr ''0.00'')],
      StMarkdown [Lit (''#### '' @ emoji_walking_man @ '' C'' @ o_acute @ ''mo llegar a la parada:'')],
      StWrite [Lit (''1. Dir'' @ i_acute @ ''gete hacia la parada: **''),
               Str (JStr ''Parada recomendada''), Lit ''**''],
      StWrite [Lit ''2. Distancia a caminar: **'', Fixed 2 (JInt 0), Lit '' km**''],
      StWrite [Lit ''3. Tiempo estimado caminando: **'', Str (JInt 0), Lit '' minutos**''],
      StMarkdown [Lit (''#### '' @ emoji_bar_chart @ '' Confianza de la recomendaci'' @ o_acute
                       @ ''n: **''), FixedMul100 1 (JInt 0), Lit ''%**'']]"


definition failed_response :: "http_response \<Rightarrow> bool" where
  "failed_response resp =
     (case resp of RequestException \<Rightarrow> True | Response status body \<Rightarrow> status \<noteq> 200 \<or> body = None)"

definition route_service_fails :: "world \<Rightarrow> TransportApp \<Rightarrow> bool" where
  "route_service_fails w app =
     (\<forall>payload. failed_response (http_post w (api_url app @ ''/calculate-route'') payload))"

definition search_results :: "world \<Rightarrow> TransportApp \<Rightarrow> inputs \<Rightarrow> json list" where
  "search_results w app inp =
     (case snd (search_destinations w app (Some (destination_input inp))) of
        Inr ds \<Rightarrow> (case py_iter ds of Inr items \<Rightarrow> items | Inl e \<Rightarrow> [])
      | Inl e \<Rightarrow> [])"

text \<open>
  Two conditions on a script: it changes the session only when it ends in a rerun, and
  then as \<open>Q\<close> says; and, started in a state satisfying \<open>P\<close>, it never ends normally.
\<close>

definition rerun_post :: "(session \<Rightarrow> session \<Rightarrow> bool) \<Rightarrow> 'a prog \<Rightarrow> bool" where
  "rerun_post Q p =
     (\<forall>s es s' r. p s = (es, s', r) \<longrightarrow> (if r = Inl Rerun then Q s s' else s' = s))"

definition no_return_from :: "(session \<Rightarrow> bool) \<Rightarrow> 'a prog \<Rightarrow> bool" where
  "no_return_from P p = (\<forall>s es s' r. P s \<and> p s = (es, s', r) \<longrightarrow> isl r)"

definition results_shown :: "session \<Rightarrow> bool" where
  "results_shown s = (show_results s \<and> truthy (route_data s))"

subsection \<open>Concrete responses, services and sessions\<close>

definition first_ids :: "nat \<Rightarrow> string" where
  "first_ids n = ''layer-a'' @ replicate n (CHR ''a'')"

definition second_ids :: "nat \<Rightarrow> string" where
  "second_ids n = ''layer-b'' @ replicate n (CHR ''b'')"

definition nameless_route :: "(string \<times> json) list" where
  "nameless_route =
     [(''origin_lat'', JFloat (Finite (-8.114722))), (''origin_lng'', JFloat (Finite (-79.038611))),
      (''boarding_lat'', JFloat (Finite (-8.112))), (''boarding_lng'', JFloat (Finite (-79.035))),
      (''destination_lat'', JFloat (Finite (-8.10))), (''destination_lng'', JFloat (Finite (-79.02))),
      (''walking_route_coordinates'',
         JArr [JArr [JFloat (Finite (-79.038611)), JFloat (Finite (-8.114722))],
               JArr [JFloat (Finite (-79.035)), JFloat (Finite (-8.112))]])]"

definition example_app :: TransportApp where
  "example_app = new_TransportApp ''http://localhost:5000/api''"

definition mall_route :: "(string \<times> json) list" where
  "mall_route =
     [(''origin_lat'', JFloat (Finite (-8.114722))), (''origin_lng'', JFloat (Finite (-79.038611))),
      (''boarding_lat'', JFloat (Finite (-8.112))), (''boarding_lng'', JFloat (Finite (-79.035))),
      (''boarding_stop_name'', JStr ''Av. Espana''),
      (''destination_lat'', JFloat (Finite (-8.10))), (''destination_lng'', JFloat (Finite (-79.02))),
      (''destination_name'', JStr ''Mall Aventura Plaza''),
      (''walking_route_coordinates'',
         JArr [JArr [JFloat (Finite (-79.038611)), JFloat (Finite (-8.114722))],
               JArr [JFloat (Finite (-79.035)), JFloat (Finite (-8.112))]]),
      (''bus_route_coordinates'', JArr [])]"

definition equator_route :: "(string \<times> json) list" where
  "equator_route =
     [(''origin_lat'', JFloat (Finite (-8.114722))), (''origin_lng'', JFloat (Finite (-79.038611))),
      (''boarding_lat'', JFloat (Finite (-8.112))), (''boarding_lng'', JFloat (Finite (-79.035))),
      (''destination_lat'', JInt 0), (''destination_lng'', JFloat (Finite (-79.02))),
      (''destination_name'', JStr ''Mitad del Mundo'')]"

definition bare_route :: "(string \<times> json) list" where
  "bare_route =
     [(''origin_lat'', JFloat (Finite (-8.114722))), (''origin_lng'', JFloat (Finite (-79.038611))),
      (''boarding_lat'', JFloat (Finite (-8.112))), (''boarding_lng'', JFloat (Finite (-79.035)))]"



definition mall_destination :: json where
  "mall_destination =
     JObj [(''id'', JInt 1), (''name'', JStr ''Mall Aventura Plaza''),
           (''latitude'', JFloat (Finite (-8.10))), (''longitude'', JFloat (Finite (-79.02)))]"

definition plaza_destination :: json where
  "plaza_destination =
     JObj [(''id'', JInt 7), (''name'', JStr ''Plaza de Armas''),
           (''address'', JStr ''Jr. Pizarro''),
           (''latitude'', JFloat (Finite (-8.1116))), (''longitude'', JFloat (Finite (-79.0288)))]"

definition search_world :: world where
  "search_world =
     \<lparr>http_get = (\<lambda>url params. Response 200 (Some (JArr [mall_destination]))),
      http_post = (\<lambda>url payload. Response 500 None),
      now_isoformat = ''2025-01-01T12:00:00'',
      b64decode = (\<lambda>v. None),
      uuid4 = first_ids\<rparr>"

definition route_response :: json where
  "route_response =
     JObj [(''route'', JObj mall_route),
           (''transport_companies'',
              JArr [JObj [(''name'', JStr ''California''), (''route_name'', JStr ''Ruta A''),
                          (''fare'', JFloat (Finite 1.5)), (''frequency_min'', JInt 10),
                          (''estimated_duration_min'', JInt 25),
                          (''reliability_score'', JFloat (Finite 0.9))]]),
           (''request_id'', JStr ''req-1'')]"

definition selected_session :: session where
  "selected_session = \<lparr>selected_destination = mall_destination, route_data = JNull, show_results = False\<rparr>"

definition route_ready_session :: session where
  "route_ready_session =
     \<lparr>selected_destination = plaza_destination, route_data = route_response, show_results = True\<rparr>"

definition calc_click :: inputs where
  "calc_click = \<lparr>destination_input = [], clicked = Some BtnCalcularRuta\<rparr>"

definition reset_click :: inputs where
  "reset_click = \<lparr>destination_input = [], clicked = Some BtnNuevaRuta\<rparr>"


section \<open>Properties of the map layers\<close>

lemma bind_err_simps [simp]:
  "bind_err (Inl e) f = Inl e"
  "bind_err (Inr v) f = f v"
  by (simp_all add: bind_err_def)

lemma bind_err_eq_Inr:
  "bind_err m f = Inr y \<longleftrightarrow> (\<exists>v. m = Inr v \<and> f v = Inr y)"
  by (cases m) simp_all

lemma subscript_JObj:
  "subscript (JObj r) k = (case map_of r k of Some v \<Rightarrow> Inr v | None \<Rightarrow> Inl (KeyError k))"
  by (simp add: subscript_def)

lemma dict_get_JObj: "dict_get (JObj r) k dflt = Inr (field_or r k dflt)"
  by (simp add: dict_get_def field_or_def)

lemma field_or_Some: "map_of r k = Some v \<Longrightarrow> field_or r k dflt = v"
  by (simp add: field_or_def)

lemma truthy_field_present: "truthy (field_or r k JNull) \<Longrightarrow> map_of r k = Some (field_or r k JNull)"
  by (cases "map_of r k") (simp_all add: field_or_def)

lemma route_points_JObj:
  assumes "map_of r ''origin_lng'' = Some olng" and "map_of r ''origin_lat'' = Some olat"
    and "map_of r ''boarding_lng'' = Some blng" and "map_of r ''boarding_lat'' = Some blat"
  shows "route_points (JObj r) =
     (if truthy (field_or r ''destination_lat'' JNull) \<and> truthy (field_or r ''destination_lng'' JNull)
      then (case map_of r ''destination_name'' of
              None \<Rightarrow> Inl (KeyError ''destination_name'')
            | Some dn \<Rightarrow>
                Inr [origin_point olng olat,
                     boarding_point (field_or r ''boarding_stop_name'' (JStr ''Parada recomendada'')) blng blat,
                     destination_point dn (field_or r ''destination_lng'' JNull)
                       (field_or r ''destination_lat'' JNull)])
      else Inr [origin_point olng olat,
                boarding_point (field_or r ''boarding_stop_name'' (JStr ''Parada recomendada'')) blng blat])"
  using assms
  by (auto simp: route_points_def subscript_def dict_get_def field_or_def split: option.splits)

lemma route_line_layers_JObj:
  "route_line_layers ids (JObj r) =
     Inr ((if truthy (field_or r ''walking_route_coordinates'' JNull)
           then [walking_layer (ids 1) (field_or r ''walking_route_coordinates'' JNull)] else [])
          @ (if truthy (field_or r ''bus_route_coordinates'' JNull)
             then [bus_layer (ids (if truthy (field_or r ''walking_route_coordinates'' JNull)
                                   then 2 else 1))
                     (field_or r ''bus_route_coordinates'' JNull)] else []))"
  by (auto simp: route_line_layers_def subscript_def dict_get_def field_or_def numeral_2_eq_2
           split: option.splits)

lemma display_route_map_JObj:
  assumes "map_of rd ''route'' = Some route"
  shows "display_route_map ids self (JObj rd) =
     bind_err (route_points route) (\<lambda>points_data.
     bind_err (route_line_layers ids route) (\<lambda>line_layers.
     bind_err (subscript route ''origin_lat'') (\<lambda>lat.
     bind_err (subscript route ''origin_lng'') (\<lambda>lng.
       Inr (Some \<lparr>layers = line_layers @ [points_layer (ids 0) points_data],
                  initial_view_state = \<lparr>latitude = lat, longitude = lng, zoom = 14, pitch = 0\<rparr>,
                  tooltip = map_tooltip\<rparr>)))))"
proof -
  from assms have "rd \<noteq> []" by auto
  with assms show ?thesis
    by (simp add: display_route_map_def py_in_def subscript_JObj)
qed

lemma line_layers_are_paths:
  assumes "route_line_layers ids route = Inr ll"
  shows "\<forall>l \<in> set ll. is_path_layer l"
  using assms
  by (auto simp: route_line_layers_def bind_err_eq_Inr walking_layer_def bus_layer_def
           split: if_splits)

lemma line_layers_ids:
  assumes "route_line_layers ids route = Inr ll"
  shows "map layer_id ll = map (\<lambda>n. ids (Suc n)) [0..<length ll]"
  using assms
  by (auto simp: route_line_layers_def bind_err_eq_Inr walking_layer_def bus_layer_def
           split: if_splits)

lemma display_route_map_layers:
  assumes "display_route_map ids self rd = Inr (Some d)"
  shows "\<exists>route pts ll. route_points route = Inr pts \<and> route_line_layers ids route = Inr ll
            \<and> subscript rd ''route'' = Inr route
            \<and> layers d = ll @ [points_layer (ids 0) pts]"
  using assms
  by (auto simp: display_route_map_def bind_err_eq_Inr split: if_splits)

lemma truthy_coords:
  "coords_field (map_of r k) \<Longrightarrow> truthy (field_or r k JNull) = nonempty_field (map_of r k)"
proof (cases "map_of r k")
  case None
  then show ?thesis by (simp add: nonempty_field_def field_or_def)
next
  case (Some v)
  assume "coords_field (map_of r k)"
  with Some show ?thesis
    by (cases v) (simp_all add: coords_field_def nonempty_field_def field_or_def)
qed

lemma layer_kinds [simp]:
  "is_path_layer (walking_layer i c)" "is_path_layer (bus_layer i c)"
  "\<not> is_path_layer (points_layer i pts)"
  "walking_layer i c \<noteq> bus_layer j c'" "bus_layer j c' \<noteq> walking_layer i c"
  "walking_layer i c \<noteq> points_layer j pts" "bus_layer i c \<noteq> points_layer j pts"
  "walking_layer i c = walking_layer j c' \<longleftrightarrow> i = j \<and> c = c'"
  "bus_layer i c = bus_layer j c' \<longleftrightarrow> i = j \<and> c = c'"
  "layer_id (walking_layer i c) = i" "layer_id (bus_layer i c) = i"
  "layer_id (points_layer i pts) = i"
  "erase_id (walking_layer i c) = walking_layer [] c" "erase_id (bus_layer i c) = bus_layer [] c"
  "erase_id (points_layer i pts) = points_layer [] pts"
  by (simp_all add: walking_layer_def bus_layer_def points_layer_def)

lemma display_route_map_route_obj:
  assumes "display_route_map ids self (JObj rd) = Inr (Some d)"
    and "map_of rd ''route'' = Some (JObj r)"
  shows "\<exists>pts. layers d =
     (if truthy (field_or r ''walking_route_coordinates'' JNull)
      then [walking_layer (ids 1) (field_or r ''walking_route_coordinates'' JNull)] else [])
     @ (if truthy (field_or r ''bus_route_coordinates'' JNull)
        then [bus_layer (ids (if truthy (field_or r ''walking_route_coordinates'' JNull)
                              then 2 else 1))
                (field_or r ''bus_route_coordinates'' JNull)] else [])
     @ [points_layer (ids 0) pts]"
  using assms
  by (auto simp: display_route_map_JObj route_line_layers_JObj bind_err_eq_Inr)

lemma route_points_completes_iff:
  "(\<exists>pts. route_points (JObj r) = Inr pts) \<longleftrightarrow> map_fields_present r"
  by (auto simp: route_points_def subscript_def dict_get_def field_or_def map_fields_present_def
           split: option.splits)

lemma display_route_map_completes_iff:
  assumes "map_of rd ''route'' = Some (JObj r)"
  shows "(\<exists>d. display_route_map ids self (JObj rd) = Inr (Some d)) \<longleftrightarrow> map_fields_present r"
proof
  assume "\<exists>d. display_route_map ids self (JObj rd) = Inr (Some d)"
  then have "\<exists>pts. route_points (JObj r) = Inr pts"
    by (auto simp: display_route_map_JObj [OF assms] bind_err_eq_Inr)
  then show "map_fields_present r" by (simp add: route_points_completes_iff)
next
  assume p: "map_fields_present r"
  then obtain pts where "route_points (JObj r) = Inr pts"
    using route_points_completes_iff by blast
  moreover from p obtain olat olng where
    "map_of r ''origin_lat'' = Some olat" "map_of r ''origin_lng'' = Some olng"
    by (auto simp: map_fields_present_def)
  ultimately show "\<exists>d. display_route_map ids self (JObj rd) = Inr (Some d)"
    by (simp add: display_route_map_JObj [OF assms] route_line_layers_JObj subscript_JObj)
qed


lemma mall_route_renders:
  "\<exists>d. display_route_map first_ids example_app (JObj [(''route'', JObj mall_route)]) = Inr (Some d)"
  by (simp add: display_route_map_JObj route_line_layers_JObj subscript_JObj dict_get_JObj
        route_points_def mall_route_def field_or_def)

text \<open>
  Claim C5 (as amended). Let the route be an object that holds the fields
  \<^verbatim>\<open>display_route_map\<close> reads by subscript (the four origin and boarding coordinates,
  and \<^verbatim>\<open>destination_name\<close> when both destination coordinates are truthy) and whose two
  coordinate fields are absent, null or lists. Then \<^verbatim>\<open>display_route_map\<close> builds a
  deck; the deck contains a walking path layer iff \<^verbatim>\<open>walking_route_coordinates\<close> is a
  non-empty list and a bus path layer iff \<^verbatim>\<open>bus_route_coordinates\<close> is a non-empty
  list; the path layers are exactly these, walking first, each carrying the coordinates
  of its field. When neither list is non-empty the deck consists of the point layer only.
\<close>

theorem route_map_path_layers:
  assumes "map_of rd ''route'' = Some (JObj r)"
    and "map_fields_present r"
    and "coords_field (map_of r ''walking_route_coordinates'')"
    and "coords_field (map_of r ''bus_route_coordinates'')"
  shows "\<exists>d. display_route_map ids self (JObj rd) = Inr (Some d)
       \<and> ((\<exists>i c. walking_layer i c \<in> set (layers d))
            \<longleftrightarrow> nonempty_field (map_of r ''walking_route_coordinates''))
       \<and> ((\<exists>i c. bus_layer i c \<in> set (layers d))
            \<longleftrightarrow> nonempty_field (map_of r ''bus_route_coordinates''))
       \<and> filter is_path_layer (layers d) =
            (if nonempty_field (map_of r ''walking_route_coordinates'')
             then [walking_layer (ids 1) (field_or r ''walking_route_coordinates'' JNull)] else [])
            @ (if nonempty_field (map_of r ''bus_route_coordinates'')
               then [bus_layer (ids (if nonempty_field (map_of r ''walking_route_coordinates'')
                                     then 2 else 1))
                       (field_or r ''bus_route_coordinates'' JNull)] else [])
       \<and> (\<not> nonempty_field (map_of r ''walking_route_coordinates'')
            \<and> \<not> nonempty_field (map_of r ''bus_route_coordinates'')
            \<longrightarrow> (\<exists>pts. layers d = [points_layer (ids 0) pts]))"
proof -
  from display_route_map_completes_iff [OF assms(1), of ids self] assms(2) obtain d where
    d: "display_route_map ids self (JObj rd) = Inr (Some d)" by blast
  from display_route_map_route_obj [OF d assms(1)] obtain pts where
    "layers d =
       (if nonempty_field (map_of r ''walking_route_coordinates'')
        then [walking_layer (ids 1) (field_or r ''walking_route_coordinates'' JNull)] else [])
       @ (if nonempty_field (map_of r ''bus_route_coordinates'')
          then [bus_layer (ids (if nonempty_field (map_of r ''walking_route_coordinates'')
                                then 2 else 1))
                  (field_or r ''bus_route_coordinates'' JNull)] else [])
       @ [points_layer (ids 0) pts]"
    by (auto simp: truthy_coords [OF assms(3)] truthy_coords [OF assms(4)])
  then have "((\<exists>i c. walking_layer i c \<in> set (layers d))
            \<longleftrightarrow> nonempty_field (map_of r ''walking_route_coordinates''))
       \<and> ((\<exists>i c. bus_layer i c \<in> set (layers d))
            \<longleftrightarrow> nonempty_field (map_of r ''bus_route_coordinates''))
       \<and> filter is_path_layer (layers d) =
            (if nonempty_field (map_of r ''walking_route_coordinates'')
             then [walking_layer (ids 1) (field_or r ''walking_route_coordinates'' JNull)] else [])
            @ (if nonempty_field (map_of r ''bus_route_coordinates'')
               then [bus_layer (ids (if nonempty_field (map_of r ''walking_route_coordinates'')
                                     then 2 else 1))
                       (field_or r ''bus_route_coordinates'' JNull)] else [])
       \<and> (\<not> nonempty_field (map_of r ''walking_route_coordinates'')
            \<and> \<not> nonempty_field (map_of r ''bus_route_coordinates'')
            \<longrightarrow> (\<exists>pts. layers d = [points_layer (ids 0) pts]))"
    by auto
  with d show ?thesis by blast
qed

theorem route_map_path_layers_witness:
  "\<exists>d. display_route_map first_ids example_app (JObj [(''route'', JObj mall_route)]) = Inr (Some d)
       \<and> filter is_path_layer (layers d) =
           [walking_layer (first_ids 1)
              (JArr [JArr [JFloat (Finite (-79.038611)), JFloat (Finite (-8.114722))],
                     JArr [JFloat (Finite (-79.035)), JFloat (Finite (-8.112))]])]
       \<and> (\<exists>i c. walking_layer i c \<in> set (layers d))
       \<and> \<not> (\<exists>i c. bus_layer i c \<in> set (layers d))"
proof -
  have r: "map_of [(''route'', JObj mall_route)] ''route'' = Some (JObj mall_route)" by simp
  have p: "map_fields_present mall_route"
    by (simp add: map_fields_present_def mall_route_def)
  have w: "coords_field (map_of mall_route ''walking_route_coordinates'')"
    by (simp add: mall_route_def coords_field_def)
  have b: "coords_field (map_of mall_route ''bus_route_coordinates'')"
    by (simp add: mall_route_def coords_field_def)
  have nw: "nonempty_field (map_of mall_route ''walking_route_coordinates'')"
    by (simp add: mall_route_def nonempty_field_def)
  have nb: "\<not> nonempty_field (map_of mall_route ''bus_route_coordinates'')"
    by (simp add: mall_route_def nonempty_field_def)
  have fw: "field_or mall_route ''walking_route_coordinates'' JNull =
      JArr [JArr [JFloat (Finite (-79.038611)), JFloat (Finite (-8.114722))],
            JArr [JFloat (Finite (-79.035)), JFloat (Finite (-8.112))]]"
    by (simp add: mall_route_def field_or_def)
  from route_map_path_layers [OF r p w b, of first_ids example_app] show ?thesis
    by (auto simp: nw nb fw)
qed

text \<open>
  A response that the data model admits: the four coordinates, both destination
  coordinates, a non-empty walking list, and no \<^verbatim>\<open>destination_name\<close>. The function
  raises \<^verbatim>\<open>KeyError('destination_name')\<close> at line 152, before any layer is built, so
  no walking layer is emitted although the list is present and non-empty.
\<close>

theorem route_map_path_layers_counterexample:
  "nonempty_field (map_of nameless_route ''walking_route_coordinates'')
   \<and> display_route_map first_ids example_app (JObj [(''route'', JObj nameless_route)])
       = Inl (KeyError ''destination_name'')"
  by (simp add: nonempty_field_def nameless_route_def display_route_map_def py_in_def
        subscript_def dict_get_def route_points_def)

text \<open>
  Claim C6. In every deck that \<^verbatim>\<open>display_route_map\<close> builds, the last layer is the
  point layer and every layer before it is a path layer.
\<close>

theorem route_map_layer_order:
  assumes "display_route_map ids self rd = Inr (Some d)"
  shows "layers d \<noteq> [] \<and> \<not> is_path_layer (last (layers d))
       \<and> (\<forall>l \<in> set (butlast (layers d)). is_path_layer l)
       \<and> (\<exists>pts. last (layers d) = points_layer (ids 0) pts)"
proof -
  from display_route_map_layers [OF assms] obtain route pts ll where
    ll: "route_line_layers ids route = Inr ll" and d: "layers d = ll @ [points_layer (ids 0) pts]"
    by blast
  from line_layers_are_paths [OF ll] d show ?thesis by auto
qed

theorem route_map_layer_order_witness:
  "\<exists>d. display_route_map first_ids example_app (JObj [(''route'', JObj mall_route)]) = Inr (Some d)
       \<and> layers d \<noteq> [] \<and> \<not> is_path_layer (last (layers d))
       \<and> list_all is_path_layer (butlast (layers d))"
proof -
  obtain d where d: "display_route_map first_ids example_app (JObj [(''route'', JObj mall_route)]) = Inr (Some d)"
    using mall_route_renders by blast
  from route_map_layer_order [OF d] d show ?thesis
    by (simp add: list_all_iff)
qed

text \<open>
  Claim C1 (as amended). Let the route be an object holding the four origin and boarding
  coordinates. If \<^verbatim>\<open>destination_lat\<close> and \<^verbatim>\<open>destination_lng\<close> are both present
  with truthy values and \<^verbatim>\<open>destination_name\<close> is present, the deck has exactly one
  point layer and it holds exactly three points, in order: the origin tagged
  \<open>tu_ubicacion\<close>, the boarding stop tagged with \<^verbatim>\<open>boarding_stop_name\<close> (or
  "Parada recomendada" when the key is absent), and the destination tagged with
  \<^verbatim>\<open>destination_name\<close>. If either destination coordinate is absent or null, the
  point layer holds exactly the first two points.
\<close>

theorem route_map_point_layer:
  assumes "map_of rd ''route'' = Some (JObj r)"
    and "map_of r ''origin_lng'' = Some olng" and "map_of r ''origin_lat'' = Some olat"
    and "map_of r ''boarding_lng'' = Some blng" and "map_of r ''boarding_lat'' = Some blat"
  shows "(\<forall>dlat dlng dn.
            map_of r ''destination_lat'' = Some dlat \<and> truthy dlat \<and>
            map_of r ''destination_lng'' = Some dlng \<and> truthy dlng \<and>
            map_of r ''destination_name'' = Some dn \<longrightarrow>
            (\<exists>d. display_route_map ids self (JObj rd) = Inr (Some d) \<and>
                 filter (\<lambda>l. \<not> is_path_layer l) (layers d) =
                   [ScatterplotLayer (ids 0)
                      [\<lparr>name = [Lit tu_ubicacion], coordinates = [olng, olat],
                        color = [255, 0, 0, 160]\<rparr>,
                       \<lparr>name = [Lit ''Parada: '',
                                Str (field_or r ''boarding_stop_name'' (JStr ''Parada recomendada''))],
                        coordinates = [blng, blat], color = [0, 0, 255, 160]\<rparr>,
                       \<lparr>name = [Lit ''Destino: '', Str dn], coordinates = [dlng, dlat],
                        color = [0, 255, 0, 160]\<rparr>]
                      ''coordinates'' ''color'' 200 True]))
       \<and> (map_of r ''destination_lat'' \<in> {None, Some JNull}
            \<or> map_of r ''destination_lng'' \<in> {None, Some JNull} \<longrightarrow>
            (\<exists>d. display_route_map ids self (JObj rd) = Inr (Some d) \<and>
                 filter (\<lambda>l. \<not> is_path_layer l) (layers d) =
                   [ScatterplotLayer (ids 0)
                      [\<lparr>name = [Lit tu_ubicacion], coordinates = [olng, olat],
                        color = [255, 0, 0, 160]\<rparr>,
                       \<lparr>name = [Lit ''Parada: '',
                                Str (field_or r ''boarding_stop_name'' (JStr ''Parada recomendada''))],
                        coordinates = [blng, blat], color = [0, 0, 255, 160]\<rparr>]
                      ''coordinates'' ''color'' 200 True]))"
proof -
  have map_eq: "display_route_map ids self (JObj rd) =
      bind_err (route_points (JObj r)) (\<lambda>points_data.
        Inr (Some \<lparr>layers =
                     ((if truthy (field_or r ''walking_route_coordinates'' JNull)
                       then [walking_layer (ids 1)
                               (field_or r ''walking_route_coordinates'' JNull)] else [])
                      @ (if truthy (field_or r ''bus_route_coordinates'' JNull)
                         then [bus_layer
                                 (ids (if truthy (field_or r ''walking_route_coordinates'' JNull)
                                       then 2 else 1))
                                 (field_or r ''bus_route_coordinates'' JNull)] else []))
                     @ [points_layer (ids 0) points_data],
                   initial_view_state =
                     \<lparr>latitude = olat, longitude = olng, zoom = 14, pitch = 0\<rparr>,
                   tooltip = map_tooltip\<rparr>))"
    by (simp add: display_route_map_JObj [OF assms(1)] route_line_layers_JObj subscript_JObj
          assms(2,3))
  note pts = route_points_JObj [OF assms(2-5)]
  have three: "\<exists>d. display_route_map ids self (JObj rd) = Inr (Some d) \<and>
                 filter (\<lambda>l. \<not> is_path_layer l) (layers d) =
                   [points_layer (ids 0) [origin_point olng olat,
                      boarding_point (field_or r ''boarding_stop_name'' (JStr ''Parada recomendada''))
                        blng blat,
                      destination_point dn dlng dlat]]"
    if "map_of r ''destination_lat'' = Some dlat" "truthy dlat"
       "map_of r ''destination_lng'' = Some dlng" "truthy dlng"
       "map_of r ''destination_name'' = Some dn" for dlat dlng dn
  proof -
    from that have "route_points (JObj r) =
        Inr [origin_point olng olat,
             boarding_point (field_or r ''boarding_stop_name'' (JStr ''Parada recomendada''))
               blng blat,
             destination_point dn dlng dlat]"
      by (simp add: pts field_or_Some)
    then show ?thesis by (simp add: map_eq)
  qed
  have two: "\<exists>d. display_route_map ids self (JObj rd) = Inr (Some d) \<and>
                 filter (\<lambda>l. \<not> is_path_layer l) (layers d) =
                   [points_layer (ids 0) [origin_point olng olat,
                      boarding_point (field_or r ''boarding_stop_name'' (JStr ''Parada recomendada''))
                        blng blat]]"
    if "map_of r ''destination_lat'' \<in> {None, Some JNull}
          \<or> map_of r ''destination_lng'' \<in> {None, Some JNull}"
  proof -
    from that have "\<not> (truthy (field_or r ''destination_lat'' JNull)
                      \<and> truthy (field_or r ''destination_lng'' JNull))"
      by (auto simp: field_or_def)
    then have "route_points (JObj r) =
        Inr [origin_point olng olat,
             boarding_point (field_or r ''boarding_stop_name'' (JStr ''Parada recomendada''))
               blng blat]"
      unfolding pts by (rule if_not_P)
    then show ?thesis by (simp add: map_eq)
  qed
  from three two show ?thesis
    by (simp add: points_layer_def origin_point_def boarding_point_def destination_point_def)
qed

theorem route_map_point_layer_witness:
  "\<exists>d. display_route_map first_ids example_app (JObj [(''route'', JObj mall_route)]) = Inr (Some d) \<and>
       filter (\<lambda>l. \<not> is_path_layer l) (layers d) =
         [ScatterplotLayer (first_ids 0)
            [\<lparr>name = [Lit tu_ubicacion],
              coordinates = [JFloat (Finite (-79.038611)), JFloat (Finite (-8.114722))],
              color = [255, 0, 0, 160]\<rparr>,
             \<lparr>name = [Lit ''Parada: '', Str (JStr ''Av. Espana'')],
              coordinates = [JFloat (Finite (-79.035)), JFloat (Finite (-8.112))],
              color = [0, 0, 255, 160]\<rparr>,
             \<lparr>name = [Lit ''Destino: '', Str (JStr ''Mall Aventura Plaza'')],
              coordinates = [JFloat (Finite (-79.02)), JFloat (Finite (-8.10))],
              color = [0, 255, 0, 160]\<rparr>]
            ''coordinates'' ''color'' 200 True]"
  using route_map_point_layer [of "[(''route'', JObj mall_route)]" mall_route
      "JFloat (Finite (-79.038611))" "JFloat (Finite (-8.114722))"
      "JFloat (Finite (-79.035))" "JFloat (Finite (-8.112))" first_ids example_app]
  by (simp add: mall_route_def field_or_def)

text \<open>
  A route whose \<^verbatim>\<open>destination_lat\<close> is present with the value 0: both destination
  coordinates are present, and the point layer holds two points.
\<close>

theorem route_map_point_layer_counterexample:
  "map_of equator_route ''destination_lat'' = Some (JInt 0)
   \<and> map_of equator_route ''destination_lng'' = Some (JFloat (Finite (-79.02)))
   \<and> display_route_map first_ids example_app (JObj [(''route'', JObj equator_route)]) =
       Inr (Some \<lparr>layers =
                    [ScatterplotLayer (first_ids 0)
                       [\<lparr>name = [Lit tu_ubicacion],
                         coordinates = [JFloat (Finite (-79.038611)), JFloat (Finite (-8.114722))],
                         color = [255, 0, 0, 160]\<rparr>,
                        \<lparr>name = [Lit ''Parada: '', Str (JStr ''Parada recomendada'')],
                         coordinates = [JFloat (Finite (-79.035)), JFloat (Finite (-8.112))],
                         color = [0, 0, 255, 160]\<rparr>]
                       ''coordinates'' ''color'' 200 True],
                  initial_view_state =
                    \<lparr>latitude = JFloat (Finite (-8.114722)),
                     longitude = JFloat (Finite (-79.038611)), zoom = 14, pitch = 0\<rparr>,
                  tooltip = map_tooltip\<rparr>)"
  by (simp add: equator_route_def display_route_map_def py_in_def subscript_def dict_get_def
        route_points_def route_line_layers_def points_layer_def origin_point_def
        boarding_point_def)

lemma line_layers_erase:
  "map_sum id (map erase_id) (route_line_layers ids1 route)
     = map_sum id (map erase_id) (route_line_layers ids2 route)"
proof (cases route)
  case (JObj r)
  then show ?thesis by (simp add: route_line_layers_JObj)
qed (simp_all add: route_line_layers_def dict_get_def)

lemma display_route_map_erase:
  "map_sum id (map_option erase_ids) (display_route_map ids1 self1 rd)
     = map_sum id (map_option erase_ids) (display_route_map ids2 self2 rd)"
proof -
  have body:
    "map_sum id (map_option erase_ids)
       (bind_err (route_points route) (\<lambda>points_data.
        bind_err (route_line_layers ids1 route) (\<lambda>line_layers.
        bind_err (subscript route ''origin_lat'') (\<lambda>lat.
        bind_err (subscript route ''origin_lng'') (\<lambda>lng.
          Inr (Some \<lparr>layers = line_layers @ [points_layer (ids1 0) points_data],
                     initial_view_state =
                       \<lparr>latitude = lat, longitude = lng, zoom = 14, pitch = 0\<rparr>,
                     tooltip = map_tooltip\<rparr>))))))
     = map_sum id (map_option erase_ids)
       (bind_err (route_points route) (\<lambda>points_data.
        bind_err (route_line_layers ids2 route) (\<lambda>line_layers.
        bind_err (subscript route ''origin_lat'') (\<lambda>lat.
        bind_err (subscript route ''origin_lng'') (\<lambda>lng.
          Inr (Some \<lparr>layers = line_layers @ [points_layer (ids2 0) points_data],
                     initial_view_state =
                       \<lparr>latitude = lat, longitude = lng, zoom = 14, pitch = 0\<rparr>,
                     tooltip = map_tooltip\<rparr>))))))" for route
  proof (cases "route_points route")
    case (Inl e)
    then show ?thesis by simp
  next
    case pts: (Inr pts)
    show ?thesis
    proof (cases "route_line_layers ids1 route")
      case (Inl e)
      with line_layers_erase [of ids1 route ids2] have "route_line_layers ids2 route = Inl e"
        by (cases "route_line_layers ids2 route") simp_all
      with Inl pts show ?thesis by simp
    next
      case (Inr l1)
      with line_layers_erase [of ids1 route ids2] obtain l2 where
        l2: "route_line_layers ids2 route = Inr l2" "map erase_id l1 = map erase_id l2"
        by (cases "route_line_layers ids2 route") simp_all
      with Inr pts show ?thesis
        by (cases "subscript route ''origin_lat''"; cases "subscript route ''origin_lng''")
           (simp_all add: erase_ids_def)
    qed
  qed
  show ?thesis
  proof (cases "truthy rd")
    case False
    then show ?thesis by (simp add: display_route_map_def)
  next
    case True
    show ?thesis
    proof (cases "py_in ''route'' rd")
      case (Inl e)
      with True show ?thesis by (simp add: display_route_map_def)
    next
      case has: (Inr has)
      show ?thesis
      proof (cases "subscript rd ''route''")
        case (Inl e)
        with True has show ?thesis by (simp add: display_route_map_def)
      next
        case (Inr route)
        with True has body [of route] show ?thesis by (simp add: display_route_map_def)
      qed
    qed
  qed
qed

lemma display_route_map_ids:
  assumes "display_route_map ids self rd = Inr (Some d)"
  shows "layer_id (last (layers d)) = ids 0
       \<and> map layer_id (butlast (layers d)) = map (\<lambda>n. ids (Suc n)) [0..<length (layers d) - 1]"
proof -
  from display_route_map_layers [OF assms] obtain route pts ll where
    ll: "route_line_layers ids route = Inr ll" and d: "layers d = ll @ [points_layer (ids 0) pts]"
    by blast
  from line_layers_ids [OF ll] d show ?thesis by simp
qed

lemma erase_ids_fields:
  "erase_ids d1 = erase_ids d2 \<Longrightarrow>
   initial_view_state d1 = initial_view_state d2 \<and> tooltip d1 = tooltip d2
   \<and> map erase_id (layers d1) = map erase_id (layers d2)"
  by (cases d1; cases d2) (simp add: erase_ids_def)

text \<open>
  Claim C7 (as amended). Two runs of \<^verbatim>\<open>display_route_map\<close> on the same response, on
  whatever application objects, agree in everything but the identifiers of the layers:
  they raise the same exception, or both return at the guard, or they build decks with
  the same layers in the same order (same kind, same point and path data, same
  accessors, colours, radius and widths), the same view anchor and the same tooltip. The
  identifier of a layer is the fresh \<^verbatim>\<open>uuid4\<close> that pydeck draws for it: the point
  layer holds the first one drawn, the path layers the following ones. On a route object
  that holds the fields read by subscript both runs do build such decks.
\<close>

theorem display_route_map_deterministic:
  "map_sum id (map_option erase_ids) (display_route_map ids1 self1 rd)
     = map_sum id (map_option erase_ids) (display_route_map ids2 self2 rd)
   \<and> (\<forall>d. display_route_map ids1 self1 rd = Inr (Some d) \<longrightarrow>
         layer_id (last (layers d)) = ids1 0
         \<and> map layer_id (butlast (layers d))
             = map (\<lambda>n. ids1 (Suc n)) [0..<length (layers d) - 1])
   \<and> (\<forall>rdo r. rd = JObj rdo \<and> map_of rdo ''route'' = Some (JObj r) \<and> map_fields_present r \<longrightarrow>
         (\<exists>d1 d2. display_route_map ids1 self1 rd = Inr (Some d1)
            \<and> display_route_map ids2 self2 rd = Inr (Some d2)
            \<and> map erase_id (layers d1) = map erase_id (layers d2)
            \<and> initial_view_state d1 = initial_view_state d2
            \<and> tooltip d1 = tooltip d2))"
proof -
  note same = display_route_map_erase [of ids1 self1 rd ids2 self2]
  have decks: "\<exists>d1 d2. display_route_map ids1 self1 rd = Inr (Some d1)
            \<and> display_route_map ids2 self2 rd = Inr (Some d2)
            \<and> map erase_id (layers d1) = map erase_id (layers d2)
            \<and> initial_view_state d1 = initial_view_state d2
            \<and> tooltip d1 = tooltip d2"
    if "rd = JObj rdo" "map_of rdo ''route'' = Some (JObj r)" "map_fields_present r" for rdo r
  proof -
    from that display_route_map_completes_iff [of rdo r ids1 self1] obtain d1 where
      d1: "display_route_map ids1 self1 rd = Inr (Some d1)" by blast
    from that display_route_map_completes_iff [of rdo r ids2 self2] obtain d2 where
      d2: "display_route_map ids2 self2 rd = Inr (Some d2)" by blast
    from same d1 d2 have "erase_ids d1 = erase_ids d2" by simp
    from erase_ids_fields [OF this] d1 d2 show ?thesis by blast
  qed
  from same display_route_map_ids decks show ?thesis by blast
qed

theorem display_route_map_deterministic_witness:
  "\<exists>d1 d2. display_route_map first_ids example_app (JObj [(''route'', JObj mall_route)]) = Inr (Some d1)
      \<and> display_route_map second_ids (new_TransportApp ''https://example.org/api'')
           (JObj [(''route'', JObj mall_route)]) = Inr (Some d2)
      \<and> map erase_id (layers d1) = map erase_id (layers d2)
      \<and> initial_view_state d1 = initial_view_state d2
      \<and> tooltip d1 = tooltip d2"
proof -
  have r: "map_of [(''route'', JObj mall_route)] ''route'' = Some (JObj mall_route)" by simp
  have p: "map_fields_present mall_route"
    by (simp add: map_fields_present_def mall_route_def)
  from display_route_map_deterministic [of first_ids example_app "JObj [(''route'', JObj mall_route)]"
      second_ids "new_TransportApp ''https://example.org/api''"] r p
  show ?thesis by blast
qed

text \<open>
  Two runs on the same response in which \<^verbatim>\<open>uuid4\<close> draws different identifiers, as
  it does from one run to the next: the two layer lists differ.
\<close>

theorem display_route_map_deterministic_counterexample:
  "display_route_map first_ids example_app (JObj [(''route'', JObj bare_route)])
     \<noteq> display_route_map second_ids example_app (JObj [(''route'', JObj bare_route)])"
  by (simp add: display_route_map_def py_in_def subscript_def dict_get_def route_points_def
        route_line_layers_def bare_route_def points_layer_def first_ids_def second_ids_def)

section \<open>Properties of the route rendering\<close>

lemma snd_bind_ui:
  "snd (bind_ui m f) = (case snd m of Inl err \<Rightarrow> Inl err | Inr v \<Rightarrow> snd (f v))"
  by (cases m) (auto simp: bind_ui_def split: sum.splits prod.splits)

lemma fst_bind_ui:
  "fst (bind_ui m f) = (case snd m of Inl err \<Rightarrow> fst m | Inr v \<Rightarrow> fst m @ fst (f v))"
  by (cases m) (auto simp: bind_ui_def split: sum.splits prod.splits)

lemma ui_simps [simp]:
  "emit e = ([e], Inr ())"
  "return_ui v = ([], Inr v)"
  "lift_err (Inr v) = ([], Inr v)"
  "lift_err (Inl err) = ([], Inl err)"
  by (simp_all add: emit_def return_ui_def lift_err_def)

lemma bind_ui_eval:
  "bind_ui (es, Inl err) f = (es, Inl err)"
  "bind_ui (es, Inr v) f = (case f v of (es', r) \<Rightarrow> (es @ es', r))"
  by (simp_all add: bind_ui_def)

lemma fmt_fixed_numeric: "numeric v \<Longrightarrow> fmt_fixed n v = Inr (Fixed n v)"
  by (cases v) (simp_all add: numeric_def fmt_fixed_def)

lemma fmt_fixed_mul100_numeric: "numeric_percent v \<Longrightarrow> fmt_fixed_mul100 n v = Inr (FixedMul100 n v)"
  by (cases v) (simp_all add: numeric_percent_def fmt_fixed_mul100_def)

lemma write_instructions_completes: "snd (write_instructions i xs) = Inr ()"
  by (induction xs arbitrary: i) (simp_all add: snd_bind_ui)

lemma py_iter_iterable: "iterable v \<Longrightarrow> \<exists>xs. py_iter v = Inr xs"
  by (cases v) (simp_all add: iterable_def py_iter_def)

lemma fallback_instructions_completes:
  "numeric (field_or r ''walking_distance_km'' (JInt 0)) \<Longrightarrow>
   snd (fallback_instructions (JObj r)) = Inr ()"
  by (simp add: fallback_instructions_def dict_get_JObj fmt_fixed_numeric snd_bind_ui)

lemma display_route_instructions_completes:
  assumes "map_of rd ''route'' = Some (JObj r)"
    and "numeric (field_or r ''walking_distance_km'' (JInt 0))"
    and "numeric_percent (field_or r ''confidence_score'' (JInt 0))"
    and "truthy (field_or r ''walking_instructions'' JNull) \<longrightarrow>
         iterable (field_or r ''walking_instructions'' JNull)"
  shows "snd (display_route_instructions self (JObj rd)) = Inr ()"
proof -
  from assms(1) have ne: "rd \<noteq> []" by auto
  have steps: "snd (if truthy (field_or r ''walking_instructions'' JNull)
                 then bind_ui (lift_err (subscript (JObj r) ''walking_instructions'')) (\<lambda>seq.
                      bind_ui (lift_err (py_iter seq)) (\<lambda>items. write_instructions 1 items))
                 else fallback_instructions (JObj r)) = Inr ()"
  proof (cases "truthy (field_or r ''walking_instructions'' JNull)")
    case True
    with assms(4) obtain xs where "py_iter (field_or r ''walking_instructions'' JNull) = Inr xs"
      using py_iter_iterable by blast
    with True truthy_field_present [OF True] show ?thesis
      by (simp add: subscript_JObj write_instructions_completes snd_bind_ui)
  next
    case False
    then show ?thesis by (simp add: fallback_instructions_completes assms(2))
  qed
  show ?thesis
    using ne assms(1) steps
    by (simp add: display_route_instructions_def py_in_def subscript_JObj dict_get_JObj
          fmt_fixed_numeric [OF assms(2)] fmt_fixed_mul100_numeric [OF assms(3)]
          snd_bind_ui)
qed

lemma display_route_instructions_defaults:
  assumes "map_of rd ''route'' = Some (JObj r)"
    and "map_of r ''walking_distance_km'' = None" and "map_of r ''walking_time_min'' = None"
    and "map_of r ''estimated_time_min'' = None" and "map_of r ''estimated_fare'' = None"
    and "map_of r ''walking_instructions'' = None" and "map_of r ''boarding_stop_name'' = None"
    and "map_of r ''confidence_score'' = None"
  shows "display_route_instructions self (JObj rd) = (default_instruction_events, Inr ())"
proof -
  from assms(1) have ne: "rd \<noteq> []" by auto
  show ?thesis
    using ne assms
    by (simp add: display_route_instructions_def py_in_def subscript_def dict_get_def
          fallback_instructions_def fmt_fixed_def fmt_fixed_mul100_def float_range_def
          default_instruction_events_def bind_ui_eval)
qed

text \<open>
  Claim C2 (as amended). For a response whose route is an object,
  \<^verbatim>\<open>display_route_map\<close> completes exactly when the four origin and boarding
  coordinates are present, and \<^verbatim>\<open>destination_name\<close> too whenever both destination
  coordinates are truthy: these fields are read by subscript, with no default.
  \<^verbatim>\<open>display_route_instructions\<close> completes whenever \<^verbatim>\<open>walking_distance_km\<close> and
  \<^verbatim>\<open>confidence_score\<close> (after their default 0) are numbers that can be formatted and
  a truthy \<^verbatim>\<open>walking_instructions\<close> is iterable. When the optional keys are absent
  the defaults are shown: 0 for the two walking figures, the estimated time and the
  confidence, the string "0.00" for the fare, "Parada recomendada" for the stop, and the
  three fallback lines for the instructions.
\<close>

theorem route_rendering_completes:
  assumes "map_of rd ''route'' = Some (JObj r)"
  shows "((\<exists>d. display_route_map ids self (JObj rd) = Inr (Some d)) \<longleftrightarrow> map_fields_present r)
       \<and> (numeric (field_or r ''walking_distance_km'' (JInt 0))
            \<and> numeric_percent (field_or r ''confidence_score'' (JInt 0))
            \<and> (truthy (field_or r ''walking_instructions'' JNull)
                 \<longrightarrow> iterable (field_or r ''walking_instructions'' JNull))
            \<longrightarrow> snd (display_route_instructions self (JObj rd)) = Inr ())
       \<and> (map_of r ''walking_distance_km'' = None \<and> map_of r ''walking_time_min'' = None
            \<and> map_of r ''estimated_time_min'' = None \<and> map_of r ''estimated_fare'' = None
            \<and> map_of r ''walking_instructions'' = None \<and> map_of r ''boarding_stop_name'' = None
            \<and> map_of r ''confidence_score'' = None
            \<longrightarrow> display_route_instructions self (JObj rd) = (default_instruction_events, Inr ()))"
  using display_route_map_completes_iff [OF assms] display_route_instructions_completes [OF assms]
    display_route_instructions_defaults [OF assms]
  by blast

theorem route_rendering_completes_witness:
  "(\<exists>d. display_route_map first_ids example_app (JObj [(''route'', JObj bare_route)]) = Inr (Some d))
   \<and> display_route_instructions example_app (JObj [(''route'', JObj bare_route)])
       = (default_instruction_events, Inr ())"
proof -
  have r: "map_of [(''route'', JObj bare_route)] ''route'' = Some (JObj bare_route)" by simp
  have p: "map_fields_present bare_route"
    by (simp add: map_fields_present_def bare_route_def field_or_def)
  have a: "map_of bare_route ''walking_distance_km'' = None \<and> map_of bare_route ''walking_time_min'' = None
            \<and> map_of bare_route ''estimated_time_min'' = None \<and> map_of bare_route ''estimated_fare'' = None
            \<and> map_of bare_route ''walking_instructions'' = None \<and> map_of bare_route ''boarding_stop_name'' = None
            \<and> map_of bare_route ''confidence_score'' = None"
    by (simp add: bare_route_def)
  from route_rendering_completes [OF r, of first_ids example_app] p a show ?thesis by blast
qed

text \<open>
  The response \<^verbatim>\<open>{"route": {}}\<close> contains the route key, and \<^verbatim>\<open>display_route_map\<close>
  raises \<^verbatim>\<open>KeyError('origin_lng')\<close> on it.
\<close>

theorem route_rendering_counterexample:
  "map_of [(''route'', JObj [])] ''route'' = Some (JObj [])
   \<and> display_route_map first_ids example_app (JObj [(''route'', JObj [])])
       = Inl (KeyError ''origin_lng'')"
  by (simp add: display_route_map_def py_in_def subscript_def route_points_def)

section \<open>Properties of the report download\<close>







section \<open>Properties of the destination search\<close>

lemma py_strip_length: "length (py_strip q) \<le> length q"
proof -
  have "length (py_strip q) \<le> length (dropWhile is_space q)"
    using length_dropWhile_le [of is_space "rev (dropWhile is_space q)"]
    by (simp add: py_strip_def)
  also have "\<dots> \<le> length q" by (rule length_dropWhile_le)
  finally show ?thesis .
qed

lemma search_destinations_short:
  "length (py_strip q) < 3 \<Longrightarrow> search_destinations w self (Some q) = ([], Inr (JArr []))"
  by (simp add: search_destinations_def)

lemma search_destinations_calls:
  assumes "3 \<le> length (py_strip q)"
  shows "\<exists>es r. search_destinations w self (Some q)
             = (HttpGet (api_url self @ ''/search'') [(''q'', q)] # es, r)
           \<and> (\<forall>e \<in> set es. \<exists>msg. e = StError msg)"
proof -
  from assms have "q \<noteq> []" by (auto simp: py_strip_def)
  with assms show ?thesis
    by (auto simp: search_destinations_def bind_ui_eval
             split: http_response.splits option.splits)
qed

lemma bind_prog_lift_ui_first:
  assumes "fst m = e # es"
  shows "\<exists>es' s' r. bind_prog (lift_ui m) f s = (e # es', s', r)"
  using assms
  by (cases m) (auto simp: bind_prog_def lift_ui_def split: sum.splits prod.splits)

text \<open>
  Claim C9 (as amended). \<^verbatim>\<open>search_destinations\<close> measures the query after
  \<^verbatim>\<open>strip()\<close>. For \<^verbatim>\<open>None\<close> and for every query whose stripped length is below 3
  (in particular every query shorter than 3 characters) it returns the empty list and
  sends no request. For every query whose stripped length is at least 3 it sends the
  \<^verbatim>\<open>/search\<close> request with that query, and nothing else but possibly an error
  message. In \<^verbatim>\<open>main\<close> the search section does nothing for an input shorter than 3
  characters and starts with that request for every input of stripped length at least 3.
\<close>

theorem search_destinations_guard:
  "search_destinations w self None = ([], Inr (JArr []))
   \<and> (length (py_strip q) < 3 \<longrightarrow> search_destinations w self (Some q) = ([], Inr (JArr [])))
   \<and> (length q < 3 \<longrightarrow> search_destinations w self (Some q) = ([], Inr (JArr [])))
   \<and> (3 \<le> length (py_strip q) \<longrightarrow>
        (\<exists>es r. search_destinations w self (Some q)
                   = (HttpGet (api_url self @ ''/search'') [(''q'', q)] # es, r)
                 \<and> (\<forall>e \<in> set es. \<exists>msg. e = StError msg)))
   \<and> (length (destination_input inp) < 3 \<longrightarrow> search_section w self inp s = ([], s, Inr ()))
   \<and> (3 \<le> length (py_strip (destination_input inp)) \<longrightarrow>
        (\<exists>es s' r. search_section w self inp s
                      = (HttpGet (api_url self @ ''/search'') [(''q'', destination_input inp)] # es,
                         s', r)))"
proof -
  have none: "search_destinations w self None = ([], Inr (JArr []))"
    by (simp add: search_destinations_def)
  have short: "length q < 3 \<longrightarrow> search_destinations w self (Some q) = ([], Inr (JArr []))"
    using py_strip_length [of q] by (auto intro: search_destinations_short)
  have idle: "length (destination_input inp) < 3 \<longrightarrow> search_section w self inp s = ([], s, Inr ())"
    by (simp add: search_section_def return_prog_def)
  have fires: "\<exists>es s' r. search_section w self inp s
                  = (HttpGet (api_url self @ ''/search'') [(''q'', destination_input inp)] # es, s', r)"
    if q3: "3 \<le> length (py_strip (destination_input inp))"
  proof -
    from q3 py_strip_length [of "destination_input inp"]
    have len: "3 \<le> length (destination_input inp)" by simp
    then have ne: "destination_input inp \<noteq> []" by auto
    from search_destinations_calls [OF q3, of w self] obtain es r where
      "fst (search_destinations w self (Some (destination_input inp)))
         = HttpGet (api_url self @ ''/search'') [(''q'', destination_input inp)] # es"
      by auto
    from bind_prog_lift_ui_first [OF this] len ne show ?thesis
      by (simp add: search_section_def)
  qed
  from none short idle fires search_destinations_short search_destinations_calls
  show ?thesis by blast
qed

theorem search_destinations_guard_witness:
  "(\<exists>es r. search_destinations search_world example_app (Some [77, 97, 108, 108])
             = (HttpGet (api_url example_app @ ''/search'') [(''q'', [77, 97, 108, 108])] # es, r))
   \<and> search_destinations search_world example_app (Some [77, 97]) = ([], Inr (JArr []))"
proof -
  have a: "3 \<le> length (py_strip [77, 97, 108, 108])" by (simp add: py_strip_def is_space_def)
  have b: "length [77, 97 :: nat] < 3" by simp
  from search_destinations_guard [of search_world example_app "[77, 97, 108, 108]"] a
  have "\<exists>es r. search_destinations search_world example_app (Some [77, 97, 108, 108])
             = (HttpGet (api_url example_app @ ''/search'') [(''q'', [77, 97, 108, 108])] # es, r)"
    by blast
  moreover from search_destinations_guard [of search_world example_app "[77, 97]"] b
  have "search_destinations search_world example_app (Some [77, 97]) = ([], Inr (JArr []))"
    by blast
  ultimately show ?thesis by simp
qed

text \<open>
  The query of five characters made of two spaces, the letter a and two spaces has at
  least 3 characters, and no request is sent for it.
\<close>

theorem search_destinations_guard_counterexample:
  "3 \<le> length [32, 32, 97, 32, 32 :: nat]
   \<and> search_destinations search_world example_app (Some [32, 32, 97, 32, 32]) = ([], Inr (JArr []))"
  by (simp add: search_destinations_def py_strip_def is_space_def)

section \<open>Properties of the script run\<close>

lemma rerun_post_return: "rerun_post Q (return_prog v)"
  by (simp add: rerun_post_def return_prog_def)

lemma rerun_post_lift_ui: "rerun_post Q (lift_ui m)"
  by (cases m) (auto simp: rerun_post_def lift_ui_def split: sum.splits)

lemma rerun_post_bind:
  assumes "rerun_post Q m" and "\<And>v. rerun_post Q (f v)"
  shows "rerun_post Q (bind_prog m f)"
  unfolding rerun_post_def
proof (intro allI impI)
  fix s es s' r
  assume run: "bind_prog m f s = (es, s', r)"
  obtain es1 s1 r1 where m: "m s = (es1, s1, r1)" by (cases "m s") auto
  show "if r = Inl Rerun then Q s s' else s' = s"
  proof (cases r1)
    case (Inl st)
    with run m have "s' = s1" "r = Inl st" by (simp_all add: bind_prog_def)
    with assms(1) m Inl show ?thesis by (auto simp: rerun_post_def)
  next
    case (Inr v)
    with assms(1) m have s1: "s1 = s" by (auto simp: rerun_post_def)
    obtain es2 s2 r2 where f: "f v s = (es2, s2, r2)" by (cases "f v s") auto
    with run m Inr s1 have "s' = s2" "r = r2" by (simp_all add: bind_prog_def)
    with assms(2) [of v] f show ?thesis by (simp add: rerun_post_def)
  qed
qed

lemma rerun_post_bind_lift_ui:
  assumes "\<And>v. snd m = Inr v \<Longrightarrow> rerun_post Q (f v)"
  shows "rerun_post Q (bind_prog (lift_ui m) f)"
proof (cases m)
  case (Pair es r)
  show ?thesis
  proof (cases r)
    case (Inl err)
    with Pair show ?thesis
      by (simp add: rerun_post_def bind_prog_def lift_ui_def)
  next
    case (Inr v)
    with Pair assms [of v] show ?thesis
      by (auto simp: rerun_post_def bind_prog_def lift_ui_def split: prod.splits)
  qed
qed

lemma rerun_post_get_session:
  assumes "\<And>s0. rerun_post Q (f s0)"
  shows "rerun_post Q (bind_prog get_session f)"
  using assms
  by (auto simp: rerun_post_def bind_prog_def get_session_def split: prod.splits sum.splits)

lemma rerun_post_modify_rerun:
  assumes "\<And>s. Q s (g s)"
  shows "rerun_post Q (bind_prog (modify_session g) (\<lambda>_. st_rerun))"
  using assms
  by (simp add: rerun_post_def bind_prog_def modify_session_def st_rerun_def)

lemma snd_st_button: "snd (st_button inp b) = Inr (clicked inp = Some b)"
  by (simp add: st_button_def bind_ui_eval)

lemma result_row_pressed:
  assumes "snd (result_row inp dest) = Inr True"
  shows "\<exists>k. subscript dest ''id'' = Inr k \<and> clicked inp = Some (BtnSeleccionar k)"
  using assms
  by (auto simp: result_row_def snd_bind_ui st_button_def lift_err_def
           split: sum.splits if_splits)

lemma select_buttons_rerun_post:
  assumes "\<And>k dest s. dest \<in> set dests \<Longrightarrow> subscript dest ''id'' = Inr k
             \<Longrightarrow> clicked inp = Some (BtnSeleccionar k)
             \<Longrightarrow> Q s (s\<lparr>selected_destination := dest\<rparr>)"
  shows "rerun_post Q (select_buttons inp dests)"
  using assms
proof (induction dests)
  case Nil
  show ?case by (simp add: rerun_post_return)
next
  case (Cons dest rest)
  have rest: "rerun_post Q (select_buttons inp rest)"
    by (rule Cons.IH) (auto intro: Cons.prems)
  have "rerun_post Q (if pressed
           then bind_prog (modify_session (\<lambda>s. s\<lparr>selected_destination := dest\<rparr>)) (\<lambda>_. st_rerun)
           else select_buttons inp rest)"
    if "snd (result_row inp dest) = Inr pressed" for pressed
  proof (cases pressed)
    case True
    with that have "snd (result_row inp dest) = Inr True" by simp
    from result_row_pressed [OF this] obtain k where
      "subscript dest ''id'' = Inr k" "clicked inp = Some (BtnSeleccionar k)" by blast
    then have "Q s (s\<lparr>selected_destination := dest\<rparr>)" for s
      by (intro Cons.prems) simp_all
    with True show ?thesis by (simp add: rerun_post_modify_rerun)
  next
    case False
    with rest show ?thesis by simp
  qed
  then show ?case by (simp add: rerun_post_bind_lift_ui)
qed

lemma search_section_rerun_post:
  assumes "\<And>k dest s. dest \<in> set (search_results w app inp) \<Longrightarrow> subscript dest ''id'' = Inr k
             \<Longrightarrow> clicked inp = Some (BtnSeleccionar k)
             \<Longrightarrow> Q s (s\<lparr>selected_destination := dest\<rparr>)"
  shows "rerun_post Q (search_section w app inp)"
proof -
  have "rerun_post Q (select_buttons inp items)"
    if "snd (search_destinations w app (Some (destination_input inp))) = Inr ds"
      and "snd (lift_err (py_iter ds)) = Inr items" for ds items
  proof (rule select_buttons_rerun_post)
    fix k dest s
    assume "dest \<in> set items"
    with that have "dest \<in> set (search_results w app inp)"
      by (simp add: search_results_def lift_err_def)
    then show "subscript dest ''id'' = Inr k \<Longrightarrow> clicked inp = Some (BtnSeleccionar k)
                 \<Longrightarrow> Q s (s\<lparr>selected_destination := dest\<rparr>)"
      by (rule assms)
  qed
  then show ?thesis
    unfolding search_section_def
    by (auto intro!: rerun_post_bind_lift_ui rerun_post_return)
qed

lemma calculate_route_fails:
  assumes "route_service_fails w app"
  shows "snd (calculate_route w app olat olng dname dlat dlng) = Inr JNull"
proof -
  let ?payload = "JObj [(''origin_lat'', olat), (''origin_lng'', olng), (''destination_name'', dname),
                        (''destination_lat'', dlat), (''destination_lng'', dlng),
                        (''timestamp'', JStr (now_isoformat w)),
                        (''user_agent'', JStr ''streamlit-app'')]"
  from assms have "failed_response (http_post w (api_url app @ ''/calculate-route'') ?payload)"
    by (simp add: route_service_fails_def)
  then show ?thesis
    by (auto simp: calculate_route_def Let_def bind_ui_eval failed_response_def
             split: http_response.splits option.splits)
qed

lemma selected_section_rerun_post:
  assumes "clicked inp \<noteq> Some BtnCalcularRuta \<or> route_service_fails w app"
  shows "rerun_post Q (selected_section w app inp location)"
proof -
  have calc: "rerun_post Q
      (if truthy result
       then modify_session (\<lambda>s. s\<lparr>route_data := result, show_results := True\<rparr>)
       else lift_ui (emit calc_failed_message))"
    if "clicked inp = Some BtnCalcularRuta"
      and "snd (calculate_route w app lat lng dname dlat dlng) = Inr result"
    for result lat lng dname dlat dlng
  proof -
    from assms that(1) have "route_service_fails w app" by simp
    from calculate_route_fails [OF this] that(2) have "result = JNull" by simp
    then show ?thesis by (simp add: rerun_post_lift_ui)
  qed
  show ?thesis
    unfolding selected_section_def Let_def
    by (auto intro!: rerun_post_get_session rerun_post_bind_lift_ui rerun_post_return calc
             simp: snd_st_button)
qed

lemma reset_column_pressed:
  "clicked inp = Some BtnNuevaRuta \<Longrightarrow>
   reset_column inp s = ([StButton BtnNuevaRuta], initial_session, Inl Rerun)"
  by (simp add: reset_column_def st_button_def bind_ui_eval bind_prog_def lift_ui_def
        modify_session_def st_rerun_def initial_session_def)

lemma reset_column_idle:
  "clicked inp \<noteq> Some BtnNuevaRuta \<Longrightarrow> reset_column inp s = ([StButton BtnNuevaRuta], s, Inr ())"
  by (simp add: reset_column_def st_button_def bind_ui_eval bind_prog_def lift_ui_def
        return_prog_def)

lemma reset_column_rerun_post:
  assumes "\<And>s. clicked inp = Some BtnNuevaRuta \<Longrightarrow> Q s initial_session"
  shows "rerun_post Q (reset_column inp)"
  using assms
  by (cases "clicked inp = Some BtnNuevaRuta")
     (simp_all add: rerun_post_def reset_column_pressed reset_column_idle)

lemma results_section_rerun_post:
  assumes "\<And>s. clicked inp = Some BtnNuevaRuta \<Longrightarrow> Q s initial_session"
  shows "rerun_post Q (results_section w app inp)"
  unfolding results_section_def Let_def
  by (auto intro!: rerun_post_get_session rerun_post_bind_lift_ui rerun_post_return
        rerun_post_bind [OF reset_column_rerun_post] rerun_post_lift_ui assms)

lemma main_tab1_rerun_post:
  assumes "\<And>k dest s. dest \<in> set (search_results w app inp) \<Longrightarrow> subscript dest ''id'' = Inr k
             \<Longrightarrow> clicked inp = Some (BtnSeleccionar k)
             \<Longrightarrow> Q s (s\<lparr>selected_destination := dest\<rparr>)"
    and "clicked inp \<noteq> Some BtnCalcularRuta \<or> route_service_fails w app"
    and "\<And>s. clicked inp = Some BtnNuevaRuta \<Longrightarrow> Q s initial_session"
  shows "rerun_post Q (main_tab1 w app inp)"
  unfolding main_tab1_def
  by (auto intro!: rerun_post_bind_lift_ui rerun_post_return
        rerun_post_bind [OF search_section_rerun_post]
        rerun_post_bind [OF selected_section_rerun_post]
        results_section_rerun_post assms)

lemma no_return_from_bind:
  assumes "rerun_post Q m" and "\<And>v. no_return_from P (f v)"
  shows "no_return_from P (bind_prog m f)"
  unfolding no_return_from_def
proof (intro allI impI)
  fix s es s' r
  assume a: "P s \<and> bind_prog m f s = (es, s', r)"
  obtain es1 s1 r1 where m: "m s = (es1, s1, r1)" by (cases "m s") auto
  show "isl r"
  proof (cases r1)
    case (Inl st)
    with a m show ?thesis by (auto simp: bind_prog_def)
  next
    case (Inr v)
    with assms(1) m have s1: "s1 = s" by (auto simp: rerun_post_def)
    obtain es2 s2 r2 where f: "f v s = (es2, s2, r2)" by (cases "f v s") auto
    with a m Inr s1 have "r = r2" by (simp add: bind_prog_def)
    moreover from assms(2) [of v] f a have "isl r2"
      unfolding no_return_from_def by blast
    ultimately show ?thesis by simp
  qed
qed

lemma no_return_from_bind_lift_ui:
  assumes "\<And>v. snd m = Inr v \<Longrightarrow> no_return_from P (f v)"
  shows "no_return_from P (bind_prog (lift_ui m) f)"
proof (cases m)
  case (Pair es r)
  show ?thesis
  proof (cases r)
    case (Inl err)
    with Pair show ?thesis
      by (simp add: no_return_from_def bind_prog_def lift_ui_def)
  next
    case (Inr v)
    with Pair assms [of v] show ?thesis
      by (auto simp: no_return_from_def bind_prog_def lift_ui_def split: prod.splits)
  qed
qed

lemma no_return_from_reset:
  "clicked inp = Some BtnNuevaRuta \<Longrightarrow> no_return_from P (bind_prog (reset_column inp) f)"
  by (simp add: no_return_from_def bind_prog_def reset_column_pressed)

lemma no_return_from_results:
  assumes "clicked inp = Some BtnNuevaRuta"
  shows "no_return_from results_shown (results_section w app inp)"
proof -
  have chain: "no_return_from P
     (let rd = route_data s0 in
          bind_prog (lift_ui (emit (StMarkdown [Lit ''---'']))) (\<lambda>_.
          bind_prog (lift_ui (emit (StMarkdown [Lit (''### '' @ emoji_map @ '' Ruta Calculada'')]))) (\<lambda>_.
          bind_prog (lift_ui (lift_err (display_route_map (uuid4 w) app rd))) (\<lambda>chart.
          bind_prog (lift_ui (case chart of
                                None \<Rightarrow> return_ui ()
                              | Some d \<Rightarrow> emit (StPydeckChart d))) (\<lambda>_.
          bind_prog (lift_ui (lift_err (dict_get rd ''transport_companies'' (JArr [])))) (\<lambda>companies.
          bind_prog (lift_ui (display_transport_companies app companies)) (\<lambda>_.
          bind_prog (lift_ui (display_route_instructions app rd)) (\<lambda>_.
          bind_prog (lift_ui (download_column w app inp rd)) (\<lambda>_.
          bind_prog (reset_column inp) (\<lambda>_.
            lift_ui (feedback_column inp)))))))))))" for P :: "session \<Rightarrow> bool" and s0
    unfolding Let_def
    by (intro no_return_from_bind [OF rerun_post_lift_ui [of "\<lambda>s s'. False"]]
          no_return_from_reset [OF assms])
  show ?thesis
    unfolding no_return_from_def
  proof (intro allI impI)
    fix s es s' r
    assume a: "results_shown s \<and> results_section w app inp s = (es, s', r)"
    then have "show_results s \<and> truthy (route_data s)" by (simp add: results_shown_def)
    with a chain [of "\<lambda>t. t = s" s] show "isl r"
      by (auto simp: results_section_def bind_prog_def get_session_def no_return_from_def)
  qed
qed

lemma no_return_from_main:
  assumes "clicked inp = Some BtnNuevaRuta" and "truthy (default_location app)"
  shows "no_return_from results_shown (main_tab1 w app inp)"
proof -
  have loc: "snd (get_current_location app inp) = Inr location \<Longrightarrow> location = default_location app"
    for location
    by (auto simp: get_current_location_def st_button_def bind_ui_eval split: if_splits)
  have search: "rerun_post (\<lambda>s s'. False) (search_section w app inp)"
    by (rule search_section_rerun_post) (simp add: assms(1))
  have sel: "rerun_post (\<lambda>s s'. False) (selected_section w app inp location)" for location
    by (rule selected_section_rerun_post) (simp add: assms(1))
  have body: "no_return_from results_shown
         (bind_prog (lift_ui (location_panel location)) (\<lambda>_.
         bind_prog (lift_ui (emit (StMarkdown [Lit (''### '' @ emoji_target
                                                     @ '' Ingresa tu Destino'')]))) (\<lambda>_.
         bind_prog (lift_ui (emit StTextInput)) (\<lambda>_.
         bind_prog (search_section w app inp) (\<lambda>_.
         bind_prog (selected_section w app inp location) (\<lambda>_.
           results_section w app inp))))))" for location
    by (intro no_return_from_bind [OF rerun_post_lift_ui [of "\<lambda>s s'. False"]]
          no_return_from_bind [OF search] no_return_from_bind [OF sel]
          no_return_from_results [OF assms(1)])
  show ?thesis
    unfolding main_tab1_def
  proof (rule no_return_from_bind_lift_ui)
    fix location
    assume "snd (get_current_location app inp) = Inr location"
    with loc assms(2) have "truthy location" by simp
    with body [of location] show "no_return_from results_shown
        (if truthy location then
         bind_prog (lift_ui (location_panel location)) (\<lambda>_.
         bind_prog (lift_ui (emit (StMarkdown [Lit (''### '' @ emoji_target
                                                     @ '' Ingresa tu Destino'')]))) (\<lambda>_.
         bind_prog (lift_ui (emit StTextInput)) (\<lambda>_.
         bind_prog (search_section w app inp) (\<lambda>_.
         bind_prog (selected_section w app inp location) (\<lambda>_.
           results_section w app inp)))))
       else return_prog ())"
      by simp
  qed
qed

lemma calculate_route_fails_events:
  assumes "route_service_fails w app"
  shows "\<exists>payload msg. calculate_route w app olat olng dname dlat dlng
           = ([HttpPost (api_url app @ ''/calculate-route'') payload, StError msg], Inr JNull)"
proof -
  let ?payload = "JObj [(''origin_lat'', olat), (''origin_lng'', olng), (''destination_name'', dname),
                        (''destination_lat'', dlat), (''destination_lng'', dlng),
                        (''timestamp'', JStr (now_isoformat w)),
                        (''user_agent'', JStr ''streamlit-app'')]"
  from assms have "failed_response (http_post w (api_url app @ ''/calculate-route'') ?payload)"
    by (simp add: route_service_fails_def)
  then show ?thesis
    by (auto simp: calculate_route_def Let_def bind_ui_eval failed_response_def
             split: http_response.splits option.splits)
qed

lemma selected_section_failure:
  assumes "route_service_fails w app" and "clicked inp = Some BtnCalcularRuta"
    and "truthy (selected_destination s)"
    and "subscript (selected_destination s) ''name'' = Inr dname"
    and "subscript location ''latitude'' = Inr lat" and "subscript location ''longitude'' = Inr lng"
  shows "\<exists>payload msg. selected_section w app inp location s =
           ([StSuccess [Lit (emoji_check @ '' Destino seleccionado: **''), Str dname, Lit ''**''],
             StButton BtnCalcularRuta,
             HttpPost (api_url app @ ''/calculate-route'') payload,
             StError msg, calc_failed_message], s, Inr ())"
proof -
  from assms(4) obtain d where d: "selected_destination s = JObj d"
    by (cases "selected_destination s") (simp_all add: subscript_def)
  from calculate_route_fails_events [OF assms(1)] obtain payload msg where
    "calculate_route w app lat lng dname (field_or d ''latitude'' JNull) (field_or d ''longitude'' JNull)
       = ([HttpPost (api_url app @ ''/calculate-route'') payload, StError msg], Inr JNull)"
    by blast
  with assms d show ?thesis
    by (simp add: selected_section_def Let_def bind_prog_def get_session_def lift_ui_def
          st_button_def bind_ui_eval dict_get_JObj)
qed

text \<open>
  Claim C3. Let the route service fail on every request (the call raises, the status
  is not 200, or the body cannot be parsed) and let the run be the one caused by a
  click on "Calcular Ruta". Then the run leaves the session exactly as it found it
  and does not rerun: \<^verbatim>\<open>selected_destination\<close> keeps its value, nothing is stored in
  \<^verbatim>\<open>route_data\<close> and \<^verbatim>\<open>show_results\<close> is not set. From a state with a selected
  destination, the section that holds the button shows the destination, sends the
  request, and surfaces two errors: the one of \<^verbatim>\<open>calculate_route\<close> and
  "No se pudo calcular la ruta. Intenta nuevamente.".
\<close>

theorem calculate_route_failure:
  assumes "route_service_fails w app" and "clicked inp = Some BtnCalcularRuta"
  shows "(\<forall>s es s' r. main_tab1 w app inp s = (es, s', r) \<longrightarrow> s' = s \<and> r \<noteq> Inl Rerun)
       \<and> (\<forall>s location dname lat lng.
             truthy (selected_destination s)
             \<and> subscript (selected_destination s) ''name'' = Inr dname
             \<and> subscript location ''latitude'' = Inr lat
             \<and> subscript location ''longitude'' = Inr lng \<longrightarrow>
             (\<exists>payload msg. selected_section w app inp location s =
                ([StSuccess [Lit (emoji_check @ '' Destino seleccionado: **''), Str dname, Lit ''**''],
                  StButton BtnCalcularRuta,
                  HttpPost (api_url app @ ''/calculate-route'') payload,
                  StError msg, calc_failed_message], s, Inr ())))"
proof -
  have "rerun_post (\<lambda>s s'. False) (main_tab1 w app inp)"
    by (rule main_tab1_rerun_post) (simp_all add: assms)
  then have frame: "\<forall>s es s' r. main_tab1 w app inp s = (es, s', r) \<longrightarrow> s' = s \<and> r \<noteq> Inl Rerun"
    unfolding rerun_post_def by (metis (full_types))
  from frame selected_section_failure [OF assms] show ?thesis by blast
qed

lemma search_world_fails: "route_service_fails search_world app"
  by (simp add: route_service_fails_def search_world_def failed_response_def)

theorem calculate_route_failure_witness:
  "main_tab1 search_world example_app calc_click selected_session =
     ([StInfo [Lit (emoji_pin @ '' Ubicaci'' @ o_acute
                     @ ''n actual: Centro de Trujillo (8'' @ degree_sign @ ''06''
                     @ prime_sign @ ''53'' @ double_prime_sign @ ''S 79''
                     @ degree_sign @ ''02'' @ prime_sign @ ''19''
                     @ double_prime_sign @ ''O)'')],
       StButton BtnUsarUbicacion,
       StMetric [Lit ''Latitud''] [Fixed 6 (JFloat (Finite (-8.114722)))],
       StMetric [Lit ''Longitud''] [Fixed 6 (JFloat (Finite (-79.038611)))],
       StMap (JFloat (Finite (-8.114722))) (JFloat (Finite (-79.038611))),
       StMarkdown [Lit (''### '' @ emoji_target @ '' Ingresa tu Destino'')],
       StTextInput,
       StSuccess [Lit (emoji_check @ '' Destino seleccionado: **''),
                  Str (JStr ''Mall Aventura Plaza''), Lit ''**''],
       StButton BtnCalcularRuta,
       HttpPost (api_url example_app @ ''/calculate-route'')
         (JObj [(''origin_lat'', JFloat (Finite (-8.114722))),
                (''origin_lng'', JFloat (Finite (-79.038611))),
                (''destination_name'', JStr ''Mall Aventura Plaza''),
                (''destination_lat'', JFloat (Finite (-8.10))),
                (''destination_lng'', JFloat (Finite (-79.02))),
                (''timestamp'', JStr ''2025-01-01T12:00:00''),
                (''user_agent'', JStr ''streamlit-app'')]),
       StError [Lit ''Error del servidor: '', Num 500],
       calc_failed_message],
      selected_session, Inr ())"
proof -
  have click: "clicked calc_click = Some BtnCalcularRuta" by (simp add: calc_click_def)
  obtain es s' r where run: "main_tab1 search_world example_app calc_click selected_session = (es, s', r)"
    by (cases "main_tab1 search_world example_app calc_click selected_session") auto
  from calculate_route_failure [OF search_world_fails click] run
  have s: "s' = selected_session" by blast
  have "es = fst (main_tab1 search_world example_app calc_click selected_session)"
       "r = snd (snd (main_tab1 search_world example_app calc_click selected_session))"
    using run by simp_all
  then have "es = [StInfo [Lit (emoji_pin @ '' Ubicaci'' @ o_acute
                     @ ''n actual: Centro de Trujillo (8'' @ degree_sign @ ''06''
                     @ prime_sign @ ''53'' @ double_prime_sign @ ''S 79''
                     @ degree_sign @ ''02'' @ prime_sign @ ''19''
                     @ double_prime_sign @ ''O)'')],
       StButton BtnUsarUbicacion,
       StMetric [Lit ''Latitud''] [Fixed 6 (JFloat (Finite (-8.114722)))],
       StMetric [Lit ''Longitud''] [Fixed 6 (JFloat (Finite (-79.038611)))],
       StMap (JFloat (Finite (-8.114722))) (JFloat (Finite (-79.038611))),
       StMarkdown [Lit (''### '' @ emoji_target @ '' Ingresa tu Destino'')],
       StTextInput,
       StSuccess [Lit (emoji_check @ '' Destino seleccionado: **''),
                  Str (JStr ''Mall Aventura Plaza''), Lit ''**''],
       StButton BtnCalcularRuta,
       HttpPost (api_url example_app @ ''/calculate-route'')
         (JObj [(''origin_lat'', JFloat (Finite (-8.114722))),
                (''origin_lng'', JFloat (Finite (-79.038611))),
                (''destination_name'', JStr ''Mall Aventura Plaza''),
                (''destination_lat'', JFloat (Finite (-8.10))),
                (''destination_lng'', JFloat (Finite (-79.02))),
                (''timestamp'', JStr ''2025-01-01T12:00:00''),
                (''user_agent'', JStr ''streamlit-app'')]),
       StError [Lit ''Error del servidor: '', Num 500],
       calc_failed_message] \<and> r = Inr ()"
    by (simp add: main_tab1_def bind_prog_def lift_ui_def get_current_location_def st_button_def
          bind_ui_eval calc_click_def example_app_def new_TransportApp_def trujillo_centro_def
          location_panel_def subscript_def dict_get_def fmt_fixed_def search_section_def
          return_prog_def selected_section_def get_session_def selected_session_def
          mall_destination_def calculate_route_def search_world_def results_section_def)
  with s run show ?thesis by simp
qed

text \<open>
  Claim C8. The branch of the "Calcular Nueva Ruta" button, run from any session,
  leaves \<^verbatim>\<open>show_results\<close> false and \<^verbatim>\<open>route_data\<close> and \<^verbatim>\<open>selected_destination\<close>
  \<^verbatim>\<open>None\<close>, and reruns the script. In a run caused by a click on that button, a rerun
  means that this state has been reached, and nothing changes otherwise; while the
  results are shown such a run ends in that rerun unless rendering the results raises
  before the button is reached.
\<close>

theorem reset_yields_idle:
  assumes "clicked inp = Some BtnNuevaRuta"
  shows "(\<forall>s. reset_column inp s =
             ([StButton BtnNuevaRuta],
              \<lparr>selected_destination = JNull, route_data = JNull, show_results = False\<rparr>,
              Inl Rerun))
       \<and> (\<forall>s es s' r. main_tab1 w app inp s = (es, s', r) \<longrightarrow>
             (r = Inl Rerun \<longrightarrow>
                s' = \<lparr>selected_destination = JNull, route_data = JNull, show_results = False\<rparr>)
             \<and> (r \<noteq> Inl Rerun \<longrightarrow> s' = s))
       \<and> (truthy (default_location app) \<longrightarrow>
            (\<forall>s es s' r. show_results s \<and> truthy (route_data s)
                \<and> main_tab1 w app inp s = (es, s', r) \<longrightarrow>
                r = Inl Rerun \<or> (\<exists>err. r = Inl (Raised err))))"
proof -
  have branch: "\<forall>s. reset_column inp s =
             ([StButton BtnNuevaRuta],
              \<lparr>selected_destination = JNull, route_data = JNull, show_results = False\<rparr>,
              Inl Rerun)"
    using reset_column_pressed [OF assms] by (simp add: initial_session_def)
  have "rerun_post (\<lambda>s s'. s' = initial_session) (main_tab1 w app inp)"
    by (rule main_tab1_rerun_post) (simp_all add: assms)
  then have run: "\<forall>s es s' r. main_tab1 w app inp s = (es, s', r) \<longrightarrow>
             (r = Inl Rerun \<longrightarrow>
                s' = \<lparr>selected_destination = JNull, route_data = JNull, show_results = False\<rparr>)
             \<and> (r \<noteq> Inl Rerun \<longrightarrow> s' = s)"
    unfolding rerun_post_def initial_session_def by (metis (full_types))
  have reach: "r = Inl Rerun \<or> (\<exists>err. r = Inl (Raised err))"
    if "truthy (default_location app)" "show_results s" "truthy (route_data s)"
      "main_tab1 w app inp s = (es, s', r)" for s es s' r
  proof -
    from no_return_from_main [OF assms that(1), of w] that(2-4) have "isl r"
      unfolding no_return_from_def results_shown_def by blast
    then obtain st where "r = Inl st" by (cases r) auto
    then show ?thesis by (cases st) auto
  qed
  from branch run reach show ?thesis by blast
qed

theorem reset_yields_idle_witness:
  "snd (main_tab1 search_world example_app reset_click route_ready_session)
     = (\<lparr>selected_destination = JNull, route_data = JNull, show_results = False\<rparr>, Inl Rerun)"
proof -
  have click: "clicked reset_click = Some BtnNuevaRuta" by (simp add: reset_click_def)
  obtain es s' r where run: "main_tab1 search_world example_app reset_click route_ready_session = (es, s', r)"
    by (cases "main_tab1 search_world example_app reset_click route_ready_session") auto
  have "truthy (default_location example_app)"
    by (simp add: example_app_def new_TransportApp_def trujillo_centro_def)
  moreover have "show_results route_ready_session \<and> truthy (route_data route_ready_session)"
    by (simp add: route_ready_session_def route_response_def)
  moreover note inst = reset_yields_idle [OF click, of search_world example_app]
  ultimately have "r = Inl Rerun \<or> (\<exists>err. r = Inl (Raised err))"
    using run by blast
  moreover have "\<forall>err. r \<noteq> Inl (Raised err)"
  proof -
    have "r = snd (snd (main_tab1 search_world example_app reset_click route_ready_session))"
      using run by simp
    also have "\<dots> = Inl Rerun"
      by (simp add: main_tab1_def bind_prog_def lift_ui_def get_current_location_def st_button_def
          bind_ui_eval reset_click_def example_app_def new_TransportApp_def trujillo_centro_def
          location_panel_def subscript_def dict_get_def fmt_fixed_def search_section_def
          return_prog_def selected_section_def get_session_def route_ready_session_def
          plaza_destination_def results_section_def route_response_def mall_route_def
          display_route_map_def py_in_def route_points_def route_line_layers_def
          display_transport_companies_def py_iter_def company_card_def reliability_text_def
          display_route_instructions_def fallback_instructions_def fmt_fixed_mul100_def
          float_range_def download_column_def reset_column_def modify_session_def st_rerun_def)
    finally show ?thesis by simp
  qed
  ultimately have r: "r = Inl Rerun" by blast
  with inst run
  have "s' = \<lparr>selected_destination = JNull, route_data = JNull, show_results = False\<rparr>"
    by blast
  with r run show ?thesis by simp
qed



end
